theory Spec2Isabelle
  imports Main "HOL-Library.Word"
begin

section \<open>The diagnostic reporting facility of errorReport.c\<close>

text \<open>
  A shallow embedding of \<^verbatim>\<open>src/coreUtils/errorReport.c\<close>: the five static scratch
  buffers, the lazily opened log stream with its latch, the four severity emitters, the
  log writer and the guarded read. Every C function is one HOL function of the same name
  that takes the process state and returns either the updated state (the call returned)
  or the reason the call did not return together with the state at that moment.
\<close>

subsection \<open>Constants of the build\<close>

text \<open>
  The header \<^verbatim>\<open>strConstants.h\<close> and the build flags are not part of the sources at
  hand, so the two buffer sizes, the debug switch and the expansion of \<^verbatim>\<open>__FILE__\<close>
  are parameters of the model. The line numbers that \<^verbatim>\<open>__LINE__\<close> expands to are
  those of the source file: 102 in \<^verbatim>\<open>ephem_log\<close> and 114 in \<^verbatim>\<open>dcffread\<close>.
\<close>

record config =
  LSTR_LENGTH :: nat
  FNAME_LENGTH :: nat
  DEBUG :: bool
  FILE_macro :: string

subsection \<open>Storage and pointers\<close>

text \<open>
  \<^verbatim>\<open>static char temp_stringA[LSTR_LENGTH], ..., temp_stringE[LSTR_LENGTH]\<close>.
  A \<^verbatim>\<open>char *\<close> argument either is one of these arrays or points to storage the
  facility does not own (a caller's buffer, a string literal, the local array
  \<^verbatim>\<open>introline\<close>); the code tells the two apart by comparing addresses, and never
  writes through a pointer of the second kind. Such a pointer is modelled with the
  NUL-terminated text it points to.
\<close>

datatype slot = temp_stringA | temp_stringB | temp_stringC | temp_stringD | temp_stringE

datatype ptr = Scratch slot | Other string

datatype bufmode = FullyBuffered | LineBuffered

record stream =
  path :: string
  mode :: bufmode
  pending :: string

text \<open>
  The process state: the text held by each scratch buffer, the two static variables of
  \<^verbatim>\<open>ephem_log\<close>, what has been written to the two standard streams, the files on disk,
  and the environment the C library consults: which paths can be opened for writing,
  how many calls of \<^verbatim>\<open>fopen\<close> were made, and the text that
  \<^verbatim>\<open>str_strip(friendly_time_string(), linebuffer)\<close> yields at its k-th call.
\<close>

record world =
  slots :: "slot \<Rightarrow> string"
  logfile :: "stream option"
  latch :: int
  stderr_out :: string
  stdout_out :: string
  disk :: "string \<rightharpoonup> string"
  openable :: "string \<Rightarrow> bool"
  fopen_calls :: nat
  friendly_time :: "nat \<Rightarrow> string"
  time_calls :: nat

text \<open>
  Why a call did not return: the process exited with a status, a write ran past the end
  of a scratch buffer, a buffer was copied onto itself (both undefined behaviour in C,
  after which nothing is known), or the model's call-depth budget was used up.
\<close>

datatype stop = Exited int | Overrun slot | Overlap slot | OutOfFuel

type_synonym result = "(stop \<times> world) + world"

definition deref :: "world \<Rightarrow> ptr \<Rightarrow> string" where
  "deref w p = (case p of Scratch k \<Rightarrow> slots w k | Other s \<Rightarrow> s)"

definition set_slot :: "slot \<Rightarrow> string \<Rightarrow> world \<Rightarrow> world" where
  "set_slot k s w = w\<lparr>slots := (slots w)(k := s)\<rparr>"

subsection \<open>The C library calls the code makes\<close>

text \<open>
  \<^verbatim>\<open>strcpy(dst, src)\<close> into a scratch buffer copies the text and its terminator with no
  bound: it needs \<open>length s + 1\<close> bytes of the \<open>LSTR_LENGTH\<close> the buffer has. Copying
  between objects that overlap is undefined; with pointers to whole buffers the one
  overlap there can be is a source that is the destination itself.
\<close>

definition strcpy :: "config \<Rightarrow> slot \<Rightarrow> ptr \<Rightarrow> world \<Rightarrow> result" where
  "strcpy cfg dst src w =
     (if src = Scratch dst then Inl (Overlap dst, w)
      else
        let s = deref w src in
        if LSTR_LENGTH cfg < length s + 1 then Inl (Overrun dst, w)
        else Inr (set_slot dst s w))"

text \<open>
  \<^verbatim>\<open>snprintf(buf, n, ...)\<close> stores at most \<open>n - 1\<close> characters of the formatted text
  and a terminator, and nothing at all when \<open>n = 0\<close>.
\<close>

definition snprintf_text :: "nat \<Rightarrow> string \<Rightarrow> string" where
  "snprintf_text n s = take (n - 1) s"

definition snprintf :: "config \<Rightarrow> slot \<Rightarrow> nat \<Rightarrow> string \<Rightarrow> world \<Rightarrow> result" where
  "snprintf cfg dst n s w =
     (if n = 0 then Inr w
      else if LSTR_LENGTH cfg < length (snprintf_text n s) + 1 then Inl (Overrun dst, w)
      else Inr (set_slot dst (snprintf_text n s) w))"

text \<open>The conversion \<^verbatim>\<open>%d\<close> of an \<^verbatim>\<open>int\<close>.\<close>

fun dec_digits :: "nat \<Rightarrow> string" where
  "dec_digits n =
     (if n < 10 then [''0123456789'' ! n]
      else dec_digits (n div 10) @ [''0123456789'' ! (n mod 10)])"

declare dec_digits.simps [simp del]

definition fmt_d :: "32 word \<Rightarrow> string" where
  "fmt_d i = (if sint i < 0 then CHR ''-'' # dec_digits (nat (- sint i))
              else dec_digits (nat (sint i)))"

definition fputs_stderr :: "string \<Rightarrow> world \<Rightarrow> world" where
  "fputs_stderr s w = w\<lparr>stderr_out := stderr_out w @ s\<rparr>"

definition fputs_stdout :: "string \<Rightarrow> world \<Rightarrow> world" where
  "fputs_stdout s w = w\<lparr>stdout_out := stdout_out w @ s\<rparr>"

text \<open>
  \<^verbatim>\<open>fopen(p, "w")\<close>: when the path can be opened for writing the file is created, or
  cut to length zero if it exists, and a fully buffered stream on it is returned;
  otherwise the call returns \<^verbatim>\<open>NULL\<close>. Either way one more call has been made.
\<close>

definition fopen_w :: "string \<Rightarrow> world \<Rightarrow> stream option \<times> world" where
  "fopen_w p w =
     (let w' = w\<lparr>fopen_calls := fopen_calls w + 1\<rparr> in
      if openable w p
      then (Some \<lparr>path = p, mode = FullyBuffered, pending = []\<rparr>, w'\<lparr>disk := (disk w)(p \<mapsto> [])\<rparr>)
      else (None, w'))"

definition append_file :: "string \<Rightarrow> string \<Rightarrow> world \<Rightarrow> world" where
  "append_file p s w =
     w\<lparr>disk := (disk w)(p \<mapsto> (case disk w p of None \<Rightarrow> s | Some old \<Rightarrow> old @ s))\<rparr>"

text \<open>
  What a stream buffer holding \<open>s\<close> hands to the file: nothing while fully buffered,
  everything up to the last newline when line buffered.
\<close>

definition complete_lines :: "string \<Rightarrow> string" where
  "complete_lines s = rev (dropWhile (\<lambda>c. c \<noteq> CHR ''\<newline>'') (rev s))"

definition last_partial_line :: "string \<Rightarrow> string" where
  "last_partial_line s = rev (takeWhile (\<lambda>c. c \<noteq> CHR ''\<newline>'') (rev s))"

definition stream_write :: "string \<Rightarrow> world \<Rightarrow> world" where
  "stream_write s w =
     (case logfile w of
        None \<Rightarrow> w
      | Some f \<Rightarrow>
          (case mode f of
             FullyBuffered \<Rightarrow> w\<lparr>logfile := Some (f\<lparr>pending := pending f @ s\<rparr>)\<rparr>
           | LineBuffered \<Rightarrow>
               append_file (path f) (complete_lines (pending f @ s))
                 (w\<lparr>logfile := Some (f\<lparr>pending := last_partial_line (pending f @ s)\<rparr>)\<rparr>)))"

definition setvbuf_IOLBF :: "world \<Rightarrow> world" where
  "setvbuf_IOLBF w =
     (case logfile w of None \<Rightarrow> w | Some f \<Rightarrow> w\<lparr>logfile := Some (f\<lparr>mode := LineBuffered\<rparr>)\<rparr>)"

text \<open>\<^verbatim>\<open>exit(status)\<close> flushes the open stream and ends the process.\<close>

definition exit_process :: "int \<Rightarrow> world \<Rightarrow> result" where
  "exit_process status w =
     Inl (Exited status,
          (case logfile w of
             None \<Rightarrow> w
           | Some f \<Rightarrow> append_file (path f) (pending f) (w\<lparr>logfile := Some (f\<lparr>pending := []\<rparr>)\<rparr>)))"

text \<open>Sequencing: the next statement runs only if the previous one returned.\<close>

definition and_then :: "result \<Rightarrow> (world \<Rightarrow> result) \<Rightarrow> result" where
  "and_then r f = (case r of Inl e \<Rightarrow> Inl e | Inr w \<Rightarrow> f w)"

subsection \<open>The emitters and the log writer\<close>

text \<open>
  \<^verbatim>\<open>ephem_error\<close>, \<^verbatim>\<open>ephem_fatal\<close> and \<^verbatim>\<open>ephem_log\<close> call one another, so they
  are defined together; the first argument bounds the depth of nested calls, each call
  using one unit.
\<close>

fun ephem_error :: "nat \<Rightarrow> config \<Rightarrow> ptr \<Rightarrow> world \<Rightarrow> result"
  and ephem_fatal :: "nat \<Rightarrow> config \<Rightarrow> ptr \<Rightarrow> 32 word \<Rightarrow> ptr \<Rightarrow> world \<Rightarrow> result"
  and ephem_log :: "nat \<Rightarrow> config \<Rightarrow> ptr \<Rightarrow> world \<Rightarrow> result"
where
  "ephem_error 0 cfg msg w = Inl (OutOfFuel, w)"
| "ephem_error (Suc n) cfg msg w =
     (let msg' = (if msg \<noteq> Scratch temp_stringA \<and> msg \<noteq> Scratch temp_stringB
                  then Scratch temp_stringA else msg) in
      and_then (if msg \<noteq> Scratch temp_stringA \<and> msg \<noteq> Scratch temp_stringB
                then strcpy cfg temp_stringA msg w else Inr w) (\<lambda>w1.
      and_then (if DEBUG cfg
                then and_then (snprintf cfg temp_stringC (FNAME_LENGTH cfg)
                                 (''Error: '' @ deref w1 msg') w1)
                       (ephem_log n cfg (Scratch temp_stringC))
                else Inr w1) (\<lambda>w2.
      and_then (snprintf cfg temp_stringC (FNAME_LENGTH cfg)
                  (''Error: '' @ deref w2 msg' @ ''\<newline>'') w2) (\<lambda>w3.
      Inr (fputs_stderr (slots w3 temp_stringC) w3)))))"
| "ephem_fatal 0 cfg file line msg w = Inl (OutOfFuel, w)"
| "ephem_fatal (Suc n) cfg file line msg w =
     and_then (if msg \<noteq> Scratch temp_stringE then strcpy cfg temp_stringE msg w else Inr w) (\<lambda>w1.
     let introline = snprintf_text (FNAME_LENGTH cfg)
           (''Fatal Error encountered in '' @ deref w1 file @ '' at line '' @ fmt_d line @ '':'') in
     and_then (ephem_error n cfg (Other introline) w1) (\<lambda>w2.
     and_then (ephem_error n cfg (Scratch temp_stringE) w2) (\<lambda>w3.
     and_then (if DEBUG cfg then ephem_log n cfg (Other ''Terminating with error condition 1.'') w3
               else Inr w3) (\<lambda>w4.
     exit_process 1 w4))))"
| "ephem_log 0 cfg msg w = Inl (OutOfFuel, w)"
| "ephem_log (Suc n) cfg msg w =
     (if latch w \<noteq> 0 then Inr w
      else
        let w0 = w\<lparr>latch := 1\<rparr> in
        and_then (if logfile w0 = None
                  then (case fopen_w ''ephem.log'' w0 of
                          (None, w1) \<Rightarrow>
                            and_then (ephem_fatal n cfg (Other (FILE_macro cfg)) 102
                                        (Other ''Could not open log file to write.'')
                                        (w1\<lparr>logfile := None\<rparr>))
                              (exit_process 1)
                        | (Some f, w1) \<Rightarrow> Inr (setvbuf_IOLBF (w1\<lparr>logfile := Some f\<rparr>)))
                  else Inr w0) (\<lambda>w2.
        and_then (if msg \<noteq> Scratch temp_stringD then strcpy cfg temp_stringD msg w2 else Inr w2) (\<lambda>w3.
        Inr ((stream_write (''['' @ friendly_time w3 (time_calls w3) @ ''] ''
                            @ slots w3 temp_stringD @ ''\<newline>'')
               (w3\<lparr>time_calls := time_calls w3 + 1\<rparr>))\<lparr>latch := 0\<rparr>))))"

fun ephem_warning :: "nat \<Rightarrow> config \<Rightarrow> ptr \<Rightarrow> world \<Rightarrow> result" where
  "ephem_warning 0 cfg msg w = Inl (OutOfFuel, w)"
| "ephem_warning (Suc n) cfg msg w =
     and_then (if msg \<noteq> Scratch temp_stringA then strcpy cfg temp_stringA msg w else Inr w) (\<lambda>w1.
     and_then (if DEBUG cfg
               then and_then (snprintf cfg temp_stringC (FNAME_LENGTH cfg)
                                (''Warning: '' @ slots w1 temp_stringA) w1)
                      (ephem_log n cfg (Scratch temp_stringC))
               else Inr w1) (\<lambda>w2.
     and_then (snprintf cfg temp_stringC (FNAME_LENGTH cfg)
                 (''Warning: '' @ slots w2 temp_stringA @ ''\<newline>'') w2) (\<lambda>w3.
     Inr (fputs_stderr (slots w3 temp_stringC) w3))))"

fun ephem_report :: "nat \<Rightarrow> config \<Rightarrow> ptr \<Rightarrow> world \<Rightarrow> result" where
  "ephem_report 0 cfg msg w = Inl (OutOfFuel, w)"
| "ephem_report (Suc n) cfg msg w =
     and_then (if msg \<noteq> Scratch temp_stringA then strcpy cfg temp_stringA msg w else Inr w) (\<lambda>w1.
     and_then (if DEBUG cfg
               then and_then (snprintf cfg temp_stringC (FNAME_LENGTH cfg)
                                (''Reporting: '' @ slots w1 temp_stringA) w1)
                      (ephem_log n cfg (Scratch temp_stringC))
               else Inr w1) (\<lambda>w2.
     and_then (snprintf cfg temp_stringC (FNAME_LENGTH cfg)
                 (slots w2 temp_stringA @ ''\<newline>'') w2) (\<lambda>w3.
     Inr (fputs_stdout (slots w3 temp_stringC) w3))))"

subsection \<open>The guarded read\<close>

text \<open>
  \<^verbatim>\<open>fread(ptr, size, nmemb, stream)\<close> on a source that can still deliver the bytes
  \<open>src\<close> before its end or an error: the number of complete elements read, the bytes
  stored through \<^verbatim>\<open>ptr\<close>, and what is left of the source. With the element size \<open>sz\<close> or
  \<open>nmemb\<close> zero it reads nothing and returns zero.
\<close>

type_synonym byte = "8 word"

definition fread :: "nat \<Rightarrow> nat \<Rightarrow> byte list \<Rightarrow> nat \<times> byte list \<times> byte list" where
  "fread sz nmemb src =
     (if sz = 0 \<or> nmemb = 0 then (0, [], src)
      else (min nmemb (length src div sz),
            take (nmemb * sz) src,
            drop (nmemb * sz) src))"

fun dcffread ::
  "nat \<Rightarrow> config \<Rightarrow> nat \<Rightarrow> nat \<Rightarrow> byte list \<Rightarrow> world \<Rightarrow> (stop \<times> world) + (byte list \<times> byte list \<times> world)"
where
  "dcffread 0 cfg sz nmemb src w = Inl (OutOfFuel, w)"
| "dcffread (Suc n) cfg sz nmemb src w =
     (case fread sz nmemb src of
        (k, buf, src') \<Rightarrow>
          if k \<noteq> nmemb
          then (case ephem_fatal n cfg (Other (FILE_macro cfg)) 114 (Other ''file read fail'') w of
                  Inl e \<Rightarrow> Inl e
                | Inr w' \<Rightarrow> Inr (buf, src', w'))
          else Inr (buf, src', w))"

subsection \<open>Starting states, example instances and observations\<close>

text \<open>
  At process start the static arrays hold the empty text, the log stream is
  \<^verbatim>\<open>NULL\<close>, the latch is clear and nothing has been written.
\<close>

definition start_world :: "(string \<rightharpoonup> string) \<Rightarrow> (string \<Rightarrow> bool) \<Rightarrow> (nat \<Rightarrow> string) \<Rightarrow> world" where
  "start_world dk op ft =
     \<lparr>slots = (\<lambda>k. []), logfile = None, latch = 0, stderr_out = [], stdout_out = [],
      disk = dk, openable = op, fopen_calls = 0, friendly_time = ft, time_calls = 0\<rparr>"

text \<open>
  Example instances: a build with debugging on and one with debugging off, a start in a
  directory where \<^verbatim>\<open>ephem.log\<close> can be created, one where it cannot, and one where an
  older \<^verbatim>\<open>ephem.log\<close> exists.
\<close>

definition debug_build :: config where
  "debug_build =
     \<lparr>LSTR_LENGTH = 32768, FNAME_LENGTH = 4096, DEBUG = True,
      FILE_macro = ''src/coreUtils/errorReport.c''\<rparr>"

definition release_build :: config where
  "release_build = debug_build\<lparr>DEBUG := False\<rparr>"

definition clock :: "nat \<Rightarrow> string" where
  "clock k = ''t'' @ dec_digits k"

definition fresh_world :: world where
  "fresh_world = start_world Map.empty (\<lambda>p. True) clock"

definition readonly_world :: world where
  "readonly_world = start_world Map.empty (\<lambda>p. False) clock"

definition old_log_world :: world where
  "old_log_world = start_world [''ephem.log'' \<mapsto> ''old line\<newline>''] (\<lambda>p. True) clock"

text \<open>
  What the constants must allow so that the facility's own texts fit its buffers: the
  arrays have a positive size, a line formatted with the bound \<open>FNAME_LENGTH\<close> fits a
  scratch buffer, and so does the longest literal the code stores in one.
\<close>

definition buffers_ok :: "config \<Rightarrow> bool" where
  "buffers_ok cfg \<longleftrightarrow>
     0 < FNAME_LENGTH cfg \<and> FNAME_LENGTH cfg \<le> LSTR_LENGTH cfg \<and>
     length ''Terminating with error condition 1.'' < LSTR_LENGTH cfg"

text \<open>The text behind a pointer fits a scratch buffer together with its terminator.\<close>

definition fits :: "config \<Rightarrow> world \<Rightarrow> ptr \<Rightarrow> bool" where
  "fits cfg w p \<longleftrightarrow> length (deref w p) < LSTR_LENGTH cfg"

text \<open>The log stream is open already, or \<^verbatim>\<open>ephem.log\<close> can be opened.\<close>

definition sink_usable :: "world \<Rightarrow> bool" where
  "sink_usable w \<longleftrightarrow> logfile w \<noteq> None \<or> openable w ''ephem.log''"

text \<open>
  Everything handed to the log stream since it was opened: what its file holds and what
  its buffer still keeps. A stream that is not open has been handed nothing.
\<close>

definition log_text :: "world \<Rightarrow> string" where
  "log_text w =
     (case logfile w of
        None \<Rightarrow> []
      | Some f \<Rightarrow> (case disk w (path f) of None \<Rightarrow> [] | Some old \<Rightarrow> old) @ pending f)"

text \<open>
  The line \<^verbatim>\<open>"[%s] %s\n"\<close> for the time stamp \<open>ts\<close> and the text \<open>t\<close>, and the time
  stamp that the next write in state \<open>w\<close> gets.
\<close>

definition log_line :: "string \<Rightarrow> string \<Rightarrow> string" where
  "log_line ts t = ''['' @ ts @ ''] '' @ t @ ''\<newline>''"

definition stamp :: "world \<Rightarrow> nat \<Rightarrow> string" where
  "stamp w i = friendly_time w (time_calls w + i)"

text \<open>The location line that \<^verbatim>\<open>ephem_fatal\<close> composes in \<^verbatim>\<open>introline\<close>.\<close>

definition fatal_intro :: "config \<Rightarrow> string \<Rightarrow> 32 word \<Rightarrow> string" where
  "fatal_intro cfg f line =
     snprintf_text (FNAME_LENGTH cfg)
       (''Fatal Error encountered in '' @ f @ '' at line '' @ fmt_d line @ '':'')"

text \<open>How a call ended, and the state it left.\<close>

definition stopped :: "result \<Rightarrow> stop option" where
  "stopped r = (case r of Inl (e, w) \<Rightarrow> Some e | Inr w \<Rightarrow> None)"

definition final_world :: "result \<Rightarrow> world" where
  "final_world r = (case r of Inl (e, w) \<Rightarrow> w | Inr w \<Rightarrow> w)"

section \<open>Basic facts\<close>

text \<open>
  The equations of the C functions are unfolded only where a proof asks for one of them.
\<close>

declare ephem_error.simps [simp del] ephem_fatal.simps [simp del] ephem_log.simps [simp del]
  ephem_warning.simps [simp del] ephem_report.simps [simp del] dcffread.simps [simp del]

lemma and_then_Inr [simp]: "and_then (Inr w) f = f w"
  by (simp add: and_then_def)

lemma and_then_Inl [simp]: "and_then (Inl e) f = Inl e"
  by (simp add: and_then_def)

lemma and_then_returns: "and_then r f = Inr w' \<Longrightarrow> \<exists>w1. r = Inr w1 \<and> f w1 = Inr w'"
  by (cases r) simp_all

lemma and_then_stops:
  "and_then r f = Inl e \<Longrightarrow> r = Inl e \<or> (\<exists>w1. r = Inr w1 \<and> f w1 = Inl e)"
  by (cases r) simp_all

lemma and_then_exit_absorbs:
  "and_then (and_then r (exit_process s)) f = and_then r (exit_process s)"
  by (cases r) (simp_all add: exit_process_def)

lemma deref_Other [simp]: "deref w (Other s) = s"
  by (simp add: deref_def)

lemma deref_Scratch [simp]: "deref w (Scratch k) = slots w k"
  by (simp add: deref_def)

lemma set_slot_fields [simp]:
  "slots (set_slot k s w) = (slots w)(k := s)"
  "logfile (set_slot k s w) = logfile w"
  "latch (set_slot k s w) = latch w"
  "stderr_out (set_slot k s w) = stderr_out w"
  "stdout_out (set_slot k s w) = stdout_out w"
  "disk (set_slot k s w) = disk w"
  "openable (set_slot k s w) = openable w"
  "fopen_calls (set_slot k s w) = fopen_calls w"
  "friendly_time (set_slot k s w) = friendly_time w"
  "time_calls (set_slot k s w) = time_calls w"
  by (simp_all add: set_slot_def)

lemma set_slot_same: "set_slot k (slots w k) w = w"
  by (simp add: set_slot_def)

lemma fputs_stderr_fields [simp]:
  "slots (fputs_stderr s w) = slots w"
  "logfile (fputs_stderr s w) = logfile w"
  "latch (fputs_stderr s w) = latch w"
  "stderr_out (fputs_stderr s w) = stderr_out w @ s"
  "stdout_out (fputs_stderr s w) = stdout_out w"
  "disk (fputs_stderr s w) = disk w"
  "openable (fputs_stderr s w) = openable w"
  "fopen_calls (fputs_stderr s w) = fopen_calls w"
  "friendly_time (fputs_stderr s w) = friendly_time w"
  "time_calls (fputs_stderr s w) = time_calls w"
  by (simp_all add: fputs_stderr_def)

lemma fputs_stdout_fields [simp]:
  "slots (fputs_stdout s w) = slots w"
  "logfile (fputs_stdout s w) = logfile w"
  "latch (fputs_stdout s w) = latch w"
  "stderr_out (fputs_stdout s w) = stderr_out w"
  "stdout_out (fputs_stdout s w) = stdout_out w @ s"
  "disk (fputs_stdout s w) = disk w"
  "openable (fputs_stdout s w) = openable w"
  "fopen_calls (fputs_stdout s w) = fopen_calls w"
  "friendly_time (fputs_stdout s w) = friendly_time w"
  "time_calls (fputs_stdout s w) = time_calls w"
  by (simp_all add: fputs_stdout_def)

lemma stream_write_fields [simp]:
  "slots (stream_write s w) = slots w"
  "latch (stream_write s w) = latch w"
  "stderr_out (stream_write s w) = stderr_out w"
  "stdout_out (stream_write s w) = stdout_out w"
  "openable (stream_write s w) = openable w"
  "fopen_calls (stream_write s w) = fopen_calls w"
  "friendly_time (stream_write s w) = friendly_time w"
  "time_calls (stream_write s w) = time_calls w"
  by (simp_all add: stream_write_def append_file_def split: option.splits bufmode.splits)

lemma lines_split [simp]: "complete_lines s @ last_partial_line s = s"
proof -
  have "rev (takeWhile (\<lambda>c. c \<noteq> CHR ''\<newline>'') (rev s) @ dropWhile (\<lambda>c. c \<noteq> CHR ''\<newline>'') (rev s)) = s"
    by simp
  then show ?thesis
    unfolding complete_lines_def last_partial_line_def rev_append .
qed

lemma complete_lines_newline [simp]: "complete_lines (s @ ''\<newline>'') = s @ ''\<newline>''"
  by (simp add: complete_lines_def)

lemma last_partial_line_newline [simp]: "last_partial_line (s @ ''\<newline>'') = []"
  by (simp add: last_partial_line_def)

lemma log_line_fold:
  "CHR ''['' # ts @ CHR '']'' # CHR '' '' # t @ ''\<newline>'' = log_line ts t"
  by (simp add: log_line_def)

lemma lines_of_log_line [simp]:
  "complete_lines (log_line ts t) = log_line ts t"
  "last_partial_line (log_line ts t) = []"
  using complete_lines_newline [of "''['' @ ts @ ''] '' @ t"]
    last_partial_line_newline [of "''['' @ ts @ ''] '' @ t"]
  by (simp_all add: log_line_def)

lemma log_text_stream_write:
  "logfile w \<noteq> None \<Longrightarrow> log_text (stream_write s w) = log_text w @ s"
  using lines_split [of "pending (the (logfile w)) @ s"]
  apply (auto simp add: log_text_def stream_write_def append_file_def split: option.splits bufmode.splits)
  done

lemma logfile_stream_write_Some:
  "logfile w = Some f \<Longrightarrow> \<exists>g. logfile (stream_write s w) = Some g"
  by (simp add: stream_write_def append_file_def split: bufmode.splits)

lemma log_text_frame [simp]:
  "log_text (w\<lparr>latch := l\<rparr>) = log_text w"
  "log_text (w\<lparr>time_calls := t\<rparr>) = log_text w"
  "log_text (set_slot k s w) = log_text w"
  "log_text (fputs_stderr s w) = log_text w"
  "log_text (fputs_stdout s w) = log_text w"
  by (simp_all add: log_text_def set_slot_def fputs_stderr_def fputs_stdout_def
        split: option.splits)

lemma log_text_same:
  "logfile w' = logfile w \<Longrightarrow> disk w' = disk w \<Longrightarrow> log_text w' = log_text w"
  by (simp add: log_text_def split: option.splits)

lemma strcpy_fits:
  "fits cfg w src \<Longrightarrow> src \<noteq> Scratch dst \<Longrightarrow>
   strcpy cfg dst src w = Inr (set_slot dst (deref w src) w)"
  by (simp add: strcpy_def fits_def Let_def)

lemma strcpy_own_text:
  "fits cfg w (Scratch k) \<Longrightarrow> strcpy cfg k (Other (slots w k)) w = Inr w"
  by (simp add: strcpy_def fits_def Let_def set_slot_same)

lemma strcpy_no_exit: "strcpy cfg dst src w \<noteq> Inl (Exited c, w')"
  by (simp add: strcpy_def Let_def)

lemma length_snprintf_text: "0 < n \<Longrightarrow> length (snprintf_text n s) < n"
  by (simp add: snprintf_text_def)

lemma snprintf_text_fits:
  "0 < n \<Longrightarrow> n \<le> LSTR_LENGTH cfg \<Longrightarrow> length (snprintf_text n s) < LSTR_LENGTH cfg"
  using length_snprintf_text [of n s] by simp

lemma snprintf_text_whole: "length s < n \<Longrightarrow> snprintf_text n s = s"
  by (simp add: snprintf_text_def)

lemma snprintf_fits:
  "0 < n \<Longrightarrow> n \<le> LSTR_LENGTH cfg \<Longrightarrow>
   snprintf cfg dst n s w = Inr (set_slot dst (snprintf_text n s) w)"
  using length_snprintf_text [of n s] by (simp add: snprintf_def)

lemma snprintf_no_exit: "snprintf cfg dst n s w \<noteq> Inl (Exited c, w')"
  by (simp add: snprintf_def)

lemma fatal_intro_fits:
  "buffers_ok cfg \<Longrightarrow> length (fatal_intro cfg f line) < LSTR_LENGTH cfg"
  unfolding fatal_intro_def buffers_ok_def by (simp only: snprintf_text_fits)

lemma exit_process_fields:
  "\<exists>w'. exit_process c w = Inl (Exited c, w') \<and>
     slots w' = slots w \<and> latch w' = latch w \<and>
     stderr_out w' = stderr_out w \<and> stdout_out w' = stdout_out w \<and>
     openable w' = openable w \<and> fopen_calls w' = fopen_calls w \<and>
     friendly_time w' = friendly_time w \<and> time_calls w' = time_calls w \<and>
     log_text w' = log_text w \<and> (logfile w' = None \<longleftrightarrow> logfile w = None) \<and>
     (logfile w = None \<longrightarrow> disk w' = disk w)"
  by (auto simp add: exit_process_def append_file_def log_text_def split: option.splits)

lemma exit_process_status: "exit_process s w = Inl (Exited c, w') \<Longrightarrow> c = s"
  by (simp add: exit_process_def)

lemma exit_process_no_return: "exit_process s w \<noteq> Inr w'"
  by (simp add: exit_process_def)

lemma short_read_count:
  "0 < sz \<Longrightarrow> length src div sz < nmemb \<Longrightarrow> fst (fread sz nmemb src) \<noteq> nmemb"
  by (auto simp add: fread_def)

lemma fuel_2: "2 \<le> n \<Longrightarrow> \<exists>k. n = Suc (Suc k)"
  by (rule exI [of _ "n - 2"]) arith

lemma fuel_3: "3 \<le> n \<Longrightarrow> \<exists>k. n = Suc (Suc (Suc k))"
  by (rule exI [of _ "n - 3"]) arith

lemma fuel_4: "4 \<le> n \<Longrightarrow> \<exists>k. n = Suc (Suc (Suc (Suc k)))"
  by (rule exI [of _ "n - 4"]) arith

lemma fuel_6: "6 \<le> n \<Longrightarrow> \<exists>k. n = Suc (Suc (Suc (Suc (Suc (Suc k)))))"
  by (rule exI [of _ "n - 6"]) arith

lemma fuel_7: "7 \<le> n \<Longrightarrow> \<exists>k. n = Suc (Suc (Suc (Suc (Suc (Suc (Suc k))))))"
  by (rule exI [of _ "n - 7"]) arith

section \<open>The log writer\<close>

text \<open>
  What \<^verbatim>\<open>ephem_log\<close> does in each of its three situations: the latch is set, the write
  goes through, or the file cannot be opened (proved further down, once the fatal path is
  known).
\<close>

lemma ephem_log_latched: "latch w \<noteq> 0 \<Longrightarrow> ephem_log (Suc n) cfg msg w = Inr w"
  by (simp add: ephem_log.simps)

lemma ephem_log_writes:
  assumes "latch w = 0" and "sink_usable w" and "fits cfg w msg"
  shows "\<exists>w'. ephem_log (Suc n) cfg msg w = Inr w' \<and>
     slots w' = (slots w)(temp_stringD := deref w msg) \<and>
     latch w' = 0 \<and> stderr_out w' = stderr_out w \<and> stdout_out w' = stdout_out w \<and>
     openable w' = openable w \<and> friendly_time w' = friendly_time w \<and>
     time_calls w' = time_calls w + 1 \<and> logfile w' \<noteq> None \<and>
     log_text w' = (if logfile w = None then [] else log_text w) @ log_line (stamp w 0) (deref w msg) \<and>
     fopen_calls w' = (if logfile w = None then fopen_calls w + 1 else fopen_calls w)"
proof (cases "logfile w")
  case None
  with assms(2) have op: "openable w ''ephem.log''"
    by (simp add: sink_usable_def)
  show ?thesis
    using assms(1,3) None op
    by (cases msg)
       (auto simp add: ephem_log.simps fopen_w_def setvbuf_IOLBF_def strcpy_def fits_def Let_def
          stream_write_def append_file_def log_text_def log_line_def stamp_def set_slot_def)
next
  case (Some f)
  show ?thesis
    using assms(1,3) Some
    by (cases msg)
       (auto simp add: ephem_log.simps fits_def log_text_stream_write log_line_def stamp_def
          logfile_stream_write_Some strcpy_def Let_def)
qed

section \<open>The emitters\<close>

text \<open>
  The part the three emitters share, from the debug mirror to the second \<^verbatim>\<open>snprintf\<close>,
  and then each emitter when it returns.
\<close>

lemma emit_common:
  assumes ok: "buffers_ok cfg"
    and k: "k = temp_stringA \<or> k = temp_stringB"
    and sink: "DEBUG cfg \<and> latch w1 = 0 \<longrightarrow> sink_usable w1"
  shows "\<exists>w3.
     (\<forall>g. and_then
            (if DEBUG cfg
             then and_then (snprintf cfg temp_stringC (FNAME_LENGTH cfg) (lp @ slots w1 k) w1)
                    (ephem_log (Suc n) cfg (Scratch temp_stringC))
             else Inr w1)
            (\<lambda>w2. and_then (snprintf cfg temp_stringC (FNAME_LENGTH cfg)
                              (sp @ slots w2 k @ ''\<newline>'') w2) g) = g w3) \<and>
     slots w3 temp_stringC = snprintf_text (FNAME_LENGTH cfg) (sp @ slots w1 k @ ''\<newline>'') \<and>
     slots w3 temp_stringA = slots w1 temp_stringA \<and>
     slots w3 temp_stringB = slots w1 temp_stringB \<and>
     slots w3 temp_stringE = slots w1 temp_stringE \<and>
     stderr_out w3 = stderr_out w1 \<and> stdout_out w3 = stdout_out w1 \<and>
     latch w3 = latch w1 \<and> openable w3 = openable w1 \<and>
     friendly_time w3 = friendly_time w1 \<and>
     (if DEBUG cfg \<and> latch w1 = 0
      then logfile w3 \<noteq> None \<and> time_calls w3 = time_calls w1 + 1 \<and>
           log_text w3 = (if logfile w1 = None then [] else log_text w1)
                         @ log_line (stamp w1 0) (snprintf_text (FNAME_LENGTH cfg) (lp @ slots w1 k)) \<and>
           fopen_calls w3 = (if logfile w1 = None then fopen_calls w1 + 1 else fopen_calls w1)
      else logfile w3 = logfile w1 \<and> disk w3 = disk w1 \<and> time_calls w3 = time_calls w1 \<and>
           fopen_calls w3 = fopen_calls w1 \<and> slots w3 temp_stringD = slots w1 temp_stringD)"
proof -
  have F: "0 < FNAME_LENGTH cfg" "FNAME_LENGTH cfg \<le> LSTR_LENGTH cfg"
    using ok by (simp_all add: buffers_ok_def)
  show ?thesis
  proof (cases "DEBUG cfg \<and> latch w1 = 0")
    case True
    define t where "t = snprintf_text (FNAME_LENGTH cfg) (lp @ slots w1 k)"
    define w1c where "w1c = set_slot temp_stringC t w1"
    have pre: "latch w1c = 0" "sink_usable w1c" "fits cfg w1c (Scratch temp_stringC)"
      using True sink F length_snprintf_text [of "FNAME_LENGTH cfg" "lp @ slots w1 k"]
      by (simp_all add: w1c_def sink_usable_def fits_def t_def)
    from ephem_log_writes [OF pre, of n] obtain w2 where
      w2: "ephem_log (Suc n) cfg (Scratch temp_stringC) w1c = Inr w2"
        "slots w2 = (slots w1c)(temp_stringD := deref w1c (Scratch temp_stringC))"
        "latch w2 = 0" "stderr_out w2 = stderr_out w1c" "stdout_out w2 = stdout_out w1c"
        "openable w2 = openable w1c" "friendly_time w2 = friendly_time w1c"
        "time_calls w2 = time_calls w1c + 1" "logfile w2 \<noteq> None"
        "log_text w2 = (if logfile w1c = None then [] else log_text w1c)
                       @ log_line (stamp w1c 0) (deref w1c (Scratch temp_stringC))"
        "fopen_calls w2 = (if logfile w1c = None then fopen_calls w1c + 1 else fopen_calls w1c)"
      by blast
    have keep: "slots w2 k = slots w1 k"
      using k w2(2) by (auto simp add: w1c_def)
    define w3 where
      "w3 = set_slot temp_stringC
              (snprintf_text (FNAME_LENGTH cfg) (sp @ slots w1 k @ ''\<newline>'')) w2"
    have run: "\<forall>g. and_then
            (if DEBUG cfg
             then and_then (snprintf cfg temp_stringC (FNAME_LENGTH cfg) (lp @ slots w1 k) w1)
                    (ephem_log (Suc n) cfg (Scratch temp_stringC))
             else Inr w1)
            (\<lambda>w2. and_then (snprintf cfg temp_stringC (FNAME_LENGTH cfg)
                              (sp @ slots w2 k @ ''\<newline>'') w2) g) = g w3"
      using True F w2(1) keep
      by (simp add: snprintf_fits t_def [symmetric] w1c_def [symmetric] w3_def)
    have same_line: "stamp w1c 0 = stamp w1 0"
      by (simp add: stamp_def w1c_def)
    show ?thesis
      apply (rule exI [of _ w3])
      apply (rule conjI [OF run])
      using True w2 same_line
      apply (simp add: w3_def w1c_def t_def [symmetric])
      done
  next
    case False
    have quiet: "DEBUG cfg \<Longrightarrow> latch w1 \<noteq> 0"
      using False by simp
    define w3 where
      "w3 = set_slot temp_stringC
              (snprintf_text (FNAME_LENGTH cfg) (sp @ slots w1 k @ ''\<newline>'')) w1"
    have keep: "slots (set_slot temp_stringC t w1) k = slots w1 k" for t
      using k by auto
    have run: "\<forall>g. and_then
            (if DEBUG cfg
             then and_then (snprintf cfg temp_stringC (FNAME_LENGTH cfg) (lp @ slots w1 k) w1)
                    (ephem_log (Suc n) cfg (Scratch temp_stringC))
             else Inr w1)
            (\<lambda>w2. and_then (snprintf cfg temp_stringC (FNAME_LENGTH cfg)
                              (sp @ slots w2 k @ ''\<newline>'') w2) g) = g w3"
      using F quiet k
      by (auto simp add: snprintf_fits w3_def set_slot_def ephem_log_latched)
    show ?thesis
      apply (rule exI [of _ w3])
      apply (rule conjI [OF run])
      using False
      apply (auto simp add: w3_def)
      done
  qed
qed

lemma ephem_error_returns:
  assumes ok: "buffers_ok cfg" and fit: "fits cfg w msg"
    and sink: "DEBUG cfg \<and> latch w = 0 \<longrightarrow> sink_usable w"
  shows "\<exists>w'. ephem_error (Suc (Suc n)) cfg msg w = Inr w' \<and>
     stderr_out w' = stderr_out w
        @ snprintf_text (FNAME_LENGTH cfg) (''Error: '' @ deref w msg @ ''\<newline>'') \<and>
     stdout_out w' = stdout_out w \<and>
     slots w' temp_stringE = slots w temp_stringE \<and>
     (msg \<noteq> Scratch temp_stringB \<longrightarrow> slots w' temp_stringA = deref w msg) \<and>
     latch w' = latch w \<and> openable w' = openable w \<and>
     friendly_time w' = friendly_time w \<and>
     (if DEBUG cfg \<and> latch w = 0
      then logfile w' \<noteq> None \<and> time_calls w' = time_calls w + 1 \<and>
           log_text w' = (if logfile w = None then [] else log_text w)
                         @ log_line (stamp w 0) (snprintf_text (FNAME_LENGTH cfg) (''Error: '' @ deref w msg)) \<and>
           fopen_calls w' = (if logfile w = None then fopen_calls w + 1 else fopen_calls w)
      else logfile w' = logfile w \<and> disk w' = disk w \<and> time_calls w' = time_calls w \<and>
           fopen_calls w' = fopen_calls w)"
proof -
  define w1 where
    "w1 = (if msg = Scratch temp_stringA \<or> msg = Scratch temp_stringB then w
           else set_slot temp_stringA (deref w msg) w)"
  define k where "k = (if msg = Scratch temp_stringB then temp_stringB else temp_stringA)"
  have k: "k = temp_stringA \<or> k = temp_stringB"
    by (simp add: k_def)
  have sink1: "DEBUG cfg \<and> latch w1 = 0 \<longrightarrow> sink_usable w1"
    using sink by (simp add: w1_def sink_usable_def)
  have m: "slots w1 k = deref w msg"
    by (auto simp add: w1_def k_def)
  have mA: "msg \<noteq> Scratch temp_stringB \<longrightarrow> slots w1 temp_stringA = deref w msg"
    by (auto simp add: w1_def)
  have frame: "slots w1 temp_stringE = slots w temp_stringE" "stderr_out w1 = stderr_out w"
    "stdout_out w1 = stdout_out w" "latch w1 = latch w" "openable w1 = openable w"
    "friendly_time w1 = friendly_time w" "logfile w1 = logfile w" "disk w1 = disk w"
    "time_calls w1 = time_calls w" "fopen_calls w1 = fopen_calls w" "log_text w1 = log_text w"
    "stamp w1 = stamp w"
    by (auto simp add: w1_def stamp_def fun_eq_iff)
  from emit_common [OF ok k sink1, of "''Error: ''" n "''Error: ''"]
  obtain w3 where run:
      "\<And>g. and_then
            (if DEBUG cfg
             then and_then (snprintf cfg temp_stringC (FNAME_LENGTH cfg) (''Error: '' @ slots w1 k) w1)
                    (ephem_log (Suc n) cfg (Scratch temp_stringC))
             else Inr w1)
            (\<lambda>w2. and_then (snprintf cfg temp_stringC (FNAME_LENGTH cfg)
                              (''Error: '' @ slots w2 k @ ''\<newline>'') w2) g) = g w3"
      and rest: "slots w3 temp_stringC = snprintf_text (FNAME_LENGTH cfg) (''Error: '' @ slots w1 k @ ''\<newline>'')"
     "slots w3 temp_stringE = slots w1 temp_stringE"
     "slots w3 temp_stringA = slots w1 temp_stringA"
     "stderr_out w3 = stderr_out w1" "stdout_out w3 = stdout_out w1"
     "latch w3 = latch w1" "openable w3 = openable w1"
     "friendly_time w3 = friendly_time w1"
     "(if DEBUG cfg \<and> latch w1 = 0
      then logfile w3 \<noteq> None \<and> time_calls w3 = time_calls w1 + 1 \<and>
           log_text w3 = (if logfile w1 = None then [] else log_text w1)
                         @ log_line (stamp w1 0) (snprintf_text (FNAME_LENGTH cfg) (''Error: '' @ slots w1 k)) \<and>
           fopen_calls w3 = (if logfile w1 = None then fopen_calls w1 + 1 else fopen_calls w1)
      else logfile w3 = logfile w1 \<and> disk w3 = disk w1 \<and> time_calls w3 = time_calls w1 \<and>
           fopen_calls w3 = fopen_calls w1 \<and> slots w3 temp_stringD = slots w1 temp_stringD)"
    by blast
  have "ephem_error (Suc (Suc n)) cfg msg w = Inr (fputs_stderr (slots w3 temp_stringC) w3)"
  proof (cases "DEBUG cfg")
    case True
    show ?thesis
      using True run fit
      by (cases "msg = Scratch temp_stringA"; cases "msg = Scratch temp_stringB")
         (simp_all add: ephem_error.simps w1_def k_def strcpy_fits)
  next
    case False
    show ?thesis
      using False run fit
      by (cases "msg = Scratch temp_stringA"; cases "msg = Scratch temp_stringB")
         (simp_all add: ephem_error.simps w1_def k_def strcpy_fits)
  qed
  then show ?thesis
    using rest mA by (simp add: frame m)
qed

lemma ephem_warning_returns:
  assumes ok: "buffers_ok cfg" and fit: "fits cfg w msg"
    and sink: "DEBUG cfg \<and> latch w = 0 \<longrightarrow> sink_usable w"
  shows "\<exists>w'. ephem_warning (Suc (Suc n)) cfg msg w = Inr w' \<and>
     stderr_out w' = stderr_out w
        @ snprintf_text (FNAME_LENGTH cfg) (''Warning: '' @ deref w msg @ ''\<newline>'') \<and>
     stdout_out w' = stdout_out w \<and>
     latch w' = latch w \<and> slots w' temp_stringA = deref w msg \<and>
     (if DEBUG cfg \<and> latch w = 0
      then logfile w' \<noteq> None \<and> time_calls w' = time_calls w + 1 \<and>
           log_text w' = (if logfile w = None then [] else log_text w)
                         @ log_line (stamp w 0) (snprintf_text (FNAME_LENGTH cfg) (''Warning: '' @ deref w msg)) \<and>
           fopen_calls w' = (if logfile w = None then fopen_calls w + 1 else fopen_calls w)
      else logfile w' = logfile w \<and> disk w' = disk w \<and> time_calls w' = time_calls w \<and>
           fopen_calls w' = fopen_calls w)"
proof -
  define w1 where
    "w1 = (if msg = Scratch temp_stringA then w else set_slot temp_stringA (deref w msg) w)"
  have sink1: "DEBUG cfg \<and> latch w1 = 0 \<longrightarrow> sink_usable w1"
    using sink by (simp add: w1_def sink_usable_def)
  have m: "slots w1 temp_stringA = deref w msg"
    by (auto simp add: w1_def)
  have frame: "stderr_out w1 = stderr_out w"
    "stdout_out w1 = stdout_out w" "latch w1 = latch w" "logfile w1 = logfile w" "disk w1 = disk w"
    "time_calls w1 = time_calls w" "fopen_calls w1 = fopen_calls w" "log_text w1 = log_text w"
    "stamp w1 = stamp w"
    by (auto simp add: w1_def stamp_def fun_eq_iff)
  from emit_common [OF ok _ sink1, of temp_stringA "''Warning: ''" n "''Warning: ''"]
  obtain w3 where run:
      "\<And>g. and_then
            (if DEBUG cfg
             then and_then (snprintf cfg temp_stringC (FNAME_LENGTH cfg) (''Warning: '' @ slots w1 temp_stringA) w1)
                    (ephem_log (Suc n) cfg (Scratch temp_stringC))
             else Inr w1)
            (\<lambda>w2. and_then (snprintf cfg temp_stringC (FNAME_LENGTH cfg)
                              (''Warning: '' @ slots w2 temp_stringA @ ''\<newline>'') w2) g) = g w3"
      and rest: "slots w3 temp_stringC = snprintf_text (FNAME_LENGTH cfg) (''Warning: '' @ slots w1 temp_stringA @ ''\<newline>'')"
     "stderr_out w3 = stderr_out w1" "stdout_out w3 = stdout_out w1"
     "latch w3 = latch w1" "slots w3 temp_stringA = slots w1 temp_stringA"
     "(if DEBUG cfg \<and> latch w1 = 0
      then logfile w3 \<noteq> None \<and> time_calls w3 = time_calls w1 + 1 \<and>
           log_text w3 = (if logfile w1 = None then [] else log_text w1)
                         @ log_line (stamp w1 0) (snprintf_text (FNAME_LENGTH cfg) (''Warning: '' @ slots w1 temp_stringA)) \<and>
           fopen_calls w3 = (if logfile w1 = None then fopen_calls w1 + 1 else fopen_calls w1)
      else logfile w3 = logfile w1 \<and> disk w3 = disk w1 \<and> time_calls w3 = time_calls w1 \<and>
           fopen_calls w3 = fopen_calls w1 \<and> slots w3 temp_stringD = slots w1 temp_stringD)"
    by blast
  have "ephem_warning (Suc (Suc n)) cfg msg w = Inr (fputs_stderr (slots w3 temp_stringC) w3)"
  proof (cases "DEBUG cfg")
    case True
    show ?thesis
      using True run fit
      by (cases "msg = Scratch temp_stringA")
         (simp_all add: ephem_warning.simps w1_def strcpy_fits)
  next
    case False
    show ?thesis
      using False run fit
      by (cases "msg = Scratch temp_stringA")
         (simp_all add: ephem_warning.simps w1_def strcpy_fits)
  qed
  then show ?thesis
    using rest by (simp add: frame m)
qed

lemma ephem_report_returns:
  assumes ok: "buffers_ok cfg" and fit: "fits cfg w msg"
    and sink: "DEBUG cfg \<and> latch w = 0 \<longrightarrow> sink_usable w"
  shows "\<exists>w'. ephem_report (Suc (Suc n)) cfg msg w = Inr w' \<and>
     stdout_out w' = stdout_out w
        @ snprintf_text (FNAME_LENGTH cfg) (deref w msg @ ''\<newline>'') \<and>
     stderr_out w' = stderr_out w \<and>
     latch w' = latch w \<and> slots w' temp_stringA = deref w msg \<and>
     (if DEBUG cfg \<and> latch w = 0
      then logfile w' \<noteq> None \<and> time_calls w' = time_calls w + 1 \<and>
           log_text w' = (if logfile w = None then [] else log_text w)
                         @ log_line (stamp w 0) (snprintf_text (FNAME_LENGTH cfg) (''Reporting: '' @ deref w msg)) \<and>
           fopen_calls w' = (if logfile w = None then fopen_calls w + 1 else fopen_calls w)
      else logfile w' = logfile w \<and> disk w' = disk w \<and> time_calls w' = time_calls w \<and>
           fopen_calls w' = fopen_calls w)"
proof -
  define w1 where
    "w1 = (if msg = Scratch temp_stringA then w else set_slot temp_stringA (deref w msg) w)"
  have sink1: "DEBUG cfg \<and> latch w1 = 0 \<longrightarrow> sink_usable w1"
    using sink by (simp add: w1_def sink_usable_def)
  have m: "slots w1 temp_stringA = deref w msg"
    by (auto simp add: w1_def)
  have frame: "stderr_out w1 = stderr_out w"
    "stdout_out w1 = stdout_out w" "latch w1 = latch w" "logfile w1 = logfile w" "disk w1 = disk w"
    "time_calls w1 = time_calls w" "fopen_calls w1 = fopen_calls w" "log_text w1 = log_text w"
    "stamp w1 = stamp w"
    by (auto simp add: w1_def stamp_def fun_eq_iff)
  from emit_common [OF ok _ sink1, of temp_stringA "''Reporting: ''" n "[]"]
  obtain w3 where run:
      "\<And>g. and_then
            (if DEBUG cfg
             then and_then (snprintf cfg temp_stringC (FNAME_LENGTH cfg) (''Reporting: '' @ slots w1 temp_stringA) w1)
                    (ephem_log (Suc n) cfg (Scratch temp_stringC))
             else Inr w1)
            (\<lambda>w2. and_then (snprintf cfg temp_stringC (FNAME_LENGTH cfg)
                              ([] @ slots w2 temp_stringA @ ''\<newline>'') w2) g) = g w3"
      and rest: "slots w3 temp_stringC = snprintf_text (FNAME_LENGTH cfg) ([] @ slots w1 temp_stringA @ ''\<newline>'')"
     "stderr_out w3 = stderr_out w1" "stdout_out w3 = stdout_out w1"
     "latch w3 = latch w1" "slots w3 temp_stringA = slots w1 temp_stringA"
     "(if DEBUG cfg \<and> latch w1 = 0
      then logfile w3 \<noteq> None \<and> time_calls w3 = time_calls w1 + 1 \<and>
           log_text w3 = (if logfile w1 = None then [] else log_text w1)
                         @ log_line (stamp w1 0) (snprintf_text (FNAME_LENGTH cfg) (''Reporting: '' @ slots w1 temp_stringA)) \<and>
           fopen_calls w3 = (if logfile w1 = None then fopen_calls w1 + 1 else fopen_calls w1)
      else logfile w3 = logfile w1 \<and> disk w3 = disk w1 \<and> time_calls w3 = time_calls w1 \<and>
           fopen_calls w3 = fopen_calls w1 \<and> slots w3 temp_stringD = slots w1 temp_stringD)"
    by blast
  have "ephem_report (Suc (Suc n)) cfg msg w = Inr (fputs_stdout (slots w3 temp_stringC) w3)"
  proof (cases "DEBUG cfg")
    case True
    show ?thesis
      using True run fit
      by (cases "msg = Scratch temp_stringA")
         (simp_all add: ephem_report.simps w1_def strcpy_fits)
  next
    case False
    show ?thesis
      using False run fit
      by (cases "msg = Scratch temp_stringA")
         (simp_all add: ephem_report.simps w1_def strcpy_fits)
  qed
  then show ?thesis
    using rest by (simp add: frame m)
qed

section \<open>The fatal path\<close>

text \<open>
  \<^verbatim>\<open>ephem_fatal\<close> in its three situations: nothing is mirrored (debugging off, or the
  latch set), the log takes the lines, or the log cannot be opened and the nested fatal
  call ends the process.
\<close>

lemma ephem_fatal_quiet:
  assumes ok: "buffers_ok cfg" and fit: "fits cfg w msg"
    and quiet: "\<not> DEBUG cfg \<or> latch w \<noteq> 0"
  shows "\<exists>w'. ephem_fatal (Suc (Suc (Suc n))) cfg file line msg w = Inl (Exited 1, w') \<and>
     stderr_out w' = stderr_out w
        @ snprintf_text (FNAME_LENGTH cfg)
            (''Error: '' @ fatal_intro cfg (deref (set_slot temp_stringE (deref w msg) w) file) line
             @ ''\<newline>'')
        @ snprintf_text (FNAME_LENGTH cfg) (''Error: '' @ deref w msg @ ''\<newline>'') \<and>
     stdout_out w' = stdout_out w \<and> latch w' = latch w \<and>
     log_text w' = log_text w \<and> (logfile w' = None \<longleftrightarrow> logfile w = None) \<and>
     (logfile w = None \<longrightarrow> disk w' = disk w) \<and>
     fopen_calls w' = fopen_calls w \<and> time_calls w' = time_calls w \<and>
     slots w' temp_stringE = deref w msg"
proof -
  define m where "m = deref w msg"
  define w1 where "w1 = set_slot temp_stringE m w"
  define intro where "intro = fatal_intro cfg (deref w1 file) line"
  have F: "0 < FNAME_LENGTH cfg" "FNAME_LENGTH cfg \<le> LSTR_LENGTH cfg"
    using ok by (simp_all add: buffers_ok_def)
  have s1: "(if msg \<noteq> Scratch temp_stringE then strcpy cfg temp_stringE msg w else Inr w) = Inr w1"
    using fit by (auto simp add: strcpy_fits w1_def m_def set_slot_def)
  have fit1: "fits cfg w1 (Other intro)"
    using fatal_intro_fits [OF ok] by (simp add: fits_def intro_def)
  have quiet1: "DEBUG cfg \<and> latch w1 = 0 \<longrightarrow> sink_usable w1"
    using quiet by (auto simp add: w1_def)
  have nolog1: "\<not> (DEBUG cfg \<and> latch w1 = 0)"
    using quiet by (auto simp add: w1_def)
  from ephem_error_returns [OF ok fit1 quiet1, of n, unfolded if_not_P [OF nolog1]]
  obtain w2 where
    w2: "ephem_error (Suc (Suc n)) cfg (Other intro) w1 = Inr w2"
      "stderr_out w2 = stderr_out w1
         @ snprintf_text (FNAME_LENGTH cfg) (''Error: '' @ intro @ ''\<newline>'')"
      "stdout_out w2 = stdout_out w1" "slots w2 temp_stringE = slots w1 temp_stringE"
      "latch w2 = latch w1"
      "logfile w2 = logfile w1" "disk w2 = disk w1" "time_calls w2 = time_calls w1"
      "fopen_calls w2 = fopen_calls w1"
    unfolding deref_Other by blast
  have fit2: "fits cfg w2 (Scratch temp_stringE)"
    using fit w2(4) by (simp add: fits_def w1_def m_def)
  have quiet2: "DEBUG cfg \<and> latch w2 = 0 \<longrightarrow> sink_usable w2"
    using quiet w2(5) by (auto simp add: w1_def)
  have nolog2: "\<not> (DEBUG cfg \<and> latch w2 = 0)"
    using nolog1 w2(5) by simp
  from ephem_error_returns [OF ok fit2 quiet2, of n, unfolded if_not_P [OF nolog2]]
  obtain w3 where
    w3: "ephem_error (Suc (Suc n)) cfg (Scratch temp_stringE) w2 = Inr w3"
      "stderr_out w3 = stderr_out w2
         @ snprintf_text (FNAME_LENGTH cfg) (''Error: '' @ slots w2 temp_stringE @ ''\<newline>'')"
      "stdout_out w3 = stdout_out w2"
      "latch w3 = latch w2"
      "logfile w3 = logfile w2" "disk w3 = disk w2" "time_calls w3 = time_calls w2"
      "fopen_calls w3 = fopen_calls w2" "slots w3 temp_stringE = slots w2 temp_stringE"
    unfolding deref_Scratch by blast
  have s4: "(if DEBUG cfg
             then ephem_log (Suc (Suc n)) cfg (Other ''Terminating with error condition 1.'') w3
             else Inr w3) = Inr w3"
    using quiet w3(4) w2(5) by (auto simp add: w1_def ephem_log_latched)
  have run: "ephem_fatal (Suc (Suc (Suc n))) cfg file line msg w = exit_process 1 w3"
    unfolding ephem_fatal.simps s1 and_then_Inr Let_def
      fatal_intro_def [symmetric] intro_def [symmetric] w2(1) w3(1) s4 ..
  have lt: "log_text w3 = log_text w"
    by (rule log_text_same) (simp_all add: w3(5,6) w2(6,7) w1_def)
  from exit_process_fields [of 1 w3] obtain w' where
    w': "exit_process 1 w3 = Inl (Exited 1, w') \<and>
     slots w' = slots w3 \<and> latch w' = latch w3 \<and>
     stderr_out w' = stderr_out w3 \<and> stdout_out w' = stdout_out w3 \<and>
     openable w' = openable w3 \<and> fopen_calls w' = fopen_calls w3 \<and>
     friendly_time w' = friendly_time w3 \<and> time_calls w' = time_calls w3 \<and>
     log_text w' = log_text w3 \<and> (logfile w' = None \<longleftrightarrow> logfile w3 = None) \<and>
     (logfile w3 = None \<longrightarrow> disk w' = disk w3)" ..
  have res: "ephem_fatal (Suc (Suc (Suc n))) cfg file line msg w = Inl (Exited 1, w')"
    using run w' by (simp only:)
  show ?thesis
    apply (rule exI [of _ w'])
    apply (rule conjI [OF res])
    using w2(2-) w3(2-) w' lt
    apply (simp add: w1_def intro_def m_def)
    done
qed

lemma ephem_log_open_fails:
  assumes ok: "buffers_ok cfg"
    and clear: "latch w = 0" and closed: "logfile w = None"
    and denied: "\<not> openable w ''ephem.log''"
  shows "\<exists>w'. ephem_log (Suc (Suc (Suc (Suc n)))) cfg msg w = Inl (Exited 1, w') \<and>
     stderr_out w' = stderr_out w
        @ snprintf_text (FNAME_LENGTH cfg)
            (''Error: '' @ fatal_intro cfg (FILE_macro cfg) 102 @ ''\<newline>'')
        @ snprintf_text (FNAME_LENGTH cfg)
            (''Error: Could not open log file to write.\<newline>'') \<and>
     stdout_out w' = stdout_out w \<and>
     logfile w' = None \<and> disk w' = disk w \<and>
     fopen_calls w' = fopen_calls w + 1 \<and> time_calls w' = time_calls w"
proof -
  define w0 where "w0 = w\<lparr>latch := 1, fopen_calls := fopen_calls w + 1, logfile := None\<rparr>"
  have fit0: "fits cfg w0 (Other ''Could not open log file to write.'')"
    using ok by (simp add: fits_def buffers_ok_def)
  have quiet0: "\<not> DEBUG cfg \<or> latch w0 \<noteq> 0"
    by (simp add: w0_def)
  from ephem_fatal_quiet [OF ok fit0 quiet0, of n "Other (FILE_macro cfg)" 102]
  obtain w' where
    w': "ephem_fatal (Suc (Suc (Suc n))) cfg (Other (FILE_macro cfg)) 102
           (Other ''Could not open log file to write.'') w0 = Inl (Exited 1, w') \<and>
     stderr_out w' = stderr_out w0
        @ snprintf_text (FNAME_LENGTH cfg)
            (''Error: '' @ fatal_intro cfg (deref (set_slot temp_stringE (deref w0 (Other ''Could not open log file to write.'')) w0) (Other (FILE_macro cfg))) 102
             @ ''\<newline>'')
        @ snprintf_text (FNAME_LENGTH cfg) (''Error: '' @ deref w0 (Other ''Could not open log file to write.'') @ ''\<newline>'') \<and>
     stdout_out w' = stdout_out w0 \<and> latch w' = latch w0 \<and>
     log_text w' = log_text w0 \<and> (logfile w' = None \<longleftrightarrow> logfile w0 = None) \<and>
     (logfile w0 = None \<longrightarrow> disk w' = disk w0) \<and>
     fopen_calls w' = fopen_calls w0 \<and> time_calls w' = time_calls w0 \<and>
     slots w' temp_stringE = deref w0 (Other ''Could not open log file to write.'')" ..
  have run: "ephem_log (Suc (Suc (Suc (Suc n)))) cfg msg w = Inl (Exited 1, w')"
    using clear closed denied w' [THEN conjunct1]
    by (simp add: ephem_log.simps fopen_w_def Let_def w0_def)
  show ?thesis
    apply (rule exI [of _ w'])
    apply (rule conjI [OF run])
    using w' [THEN conjunct2]
    apply (simp add: w0_def)
    done
qed

lemma ephem_fatal_logged:
  assumes ok: "buffers_ok cfg" and fit: "fits cfg w msg"
    and dbg: "DEBUG cfg" and clear: "latch w = 0" and sink: "sink_usable w"
  shows "\<exists>w'. ephem_fatal (Suc (Suc (Suc n))) cfg file line msg w = Inl (Exited 1, w') \<and>
     stderr_out w' = stderr_out w
        @ snprintf_text (FNAME_LENGTH cfg)
            (''Error: '' @ fatal_intro cfg (deref (set_slot temp_stringE (deref w msg) w) file) line
             @ ''\<newline>'')
        @ snprintf_text (FNAME_LENGTH cfg) (''Error: '' @ deref w msg @ ''\<newline>'') \<and>
     stdout_out w' = stdout_out w \<and>
     log_text w' = (if logfile w = None then [] else log_text w)
        @ log_line (stamp w 0) (snprintf_text (FNAME_LENGTH cfg)
            (''Error: '' @ fatal_intro cfg (deref (set_slot temp_stringE (deref w msg) w) file) line))
        @ log_line (stamp w 1) (snprintf_text (FNAME_LENGTH cfg) (''Error: '' @ deref w msg))
        @ log_line (stamp w 2) ''Terminating with error condition 1.'' \<and>
     logfile w' \<noteq> None \<and>
     fopen_calls w' = (if logfile w = None then fopen_calls w + 1 else fopen_calls w) \<and>
     time_calls w' = time_calls w + 3 \<and>
     slots w' temp_stringE = deref w msg"
proof -
  define m where "m = deref w msg"
  define w1 where "w1 = set_slot temp_stringE m w"
  define intro where "intro = fatal_intro cfg (deref w1 file) line"
  have s1: "(if msg \<noteq> Scratch temp_stringE then strcpy cfg temp_stringE msg w else Inr w) = Inr w1"
    using fit by (auto simp add: strcpy_fits w1_def m_def set_slot_def)
  have fit1: "fits cfg w1 (Other intro)"
    using fatal_intro_fits [OF ok] by (simp add: fits_def intro_def)
  have sink1: "DEBUG cfg \<and> latch w1 = 0 \<longrightarrow> sink_usable w1"
    using sink by (simp add: w1_def sink_usable_def)
  have log1: "DEBUG cfg \<and> latch w1 = 0"
    using dbg clear by (simp add: w1_def)
  from ephem_error_returns [OF ok fit1 sink1, of n, unfolded if_P [OF log1]]
  obtain w2 where
    w2: "ephem_error (Suc (Suc n)) cfg (Other intro) w1 = Inr w2 \<and>
     stderr_out w2 = stderr_out w1
        @ snprintf_text (FNAME_LENGTH cfg) (''Error: '' @ deref w1 (Other intro) @ ''\<newline>'') \<and>
     stdout_out w2 = stdout_out w1 \<and>
     slots w2 temp_stringE = slots w1 temp_stringE \<and>
     (Other intro \<noteq> Scratch temp_stringB \<longrightarrow> slots w2 temp_stringA = deref w1 (Other intro)) \<and>
     latch w2 = latch w1 \<and> openable w2 = openable w1 \<and>
     friendly_time w2 = friendly_time w1 \<and>
     logfile w2 \<noteq> None \<and> time_calls w2 = time_calls w1 + 1 \<and>
           log_text w2 = (if logfile w1 = None then [] else log_text w1)
                         @ log_line (stamp w1 0) (snprintf_text (FNAME_LENGTH cfg) (''Error: '' @ deref w1 (Other intro))) \<and>
           fopen_calls w2 = (if logfile w1 = None then fopen_calls w1 + 1 else fopen_calls w1)" ..
  have fit2: "fits cfg w2 (Scratch temp_stringE)"
    using fit w2 by (simp add: fits_def w1_def m_def)
  have sink2: "DEBUG cfg \<and> latch w2 = 0 \<longrightarrow> sink_usable w2"
    using w2 by (simp add: sink_usable_def)
  have log2: "DEBUG cfg \<and> latch w2 = 0"
    using log1 w2 by simp
  from ephem_error_returns [OF ok fit2 sink2, of n, unfolded if_P [OF log2]]
  obtain w3 where
    w3: "ephem_error (Suc (Suc n)) cfg (Scratch temp_stringE) w2 = Inr w3 \<and>
     stderr_out w3 = stderr_out w2
        @ snprintf_text (FNAME_LENGTH cfg) (''Error: '' @ deref w2 (Scratch temp_stringE) @ ''\<newline>'') \<and>
     stdout_out w3 = stdout_out w2 \<and>
     slots w3 temp_stringE = slots w2 temp_stringE \<and>
     (Scratch temp_stringE \<noteq> Scratch temp_stringB \<longrightarrow>
        slots w3 temp_stringA = deref w2 (Scratch temp_stringE)) \<and>
     latch w3 = latch w2 \<and> openable w3 = openable w2 \<and>
     friendly_time w3 = friendly_time w2 \<and>
     logfile w3 \<noteq> None \<and> time_calls w3 = time_calls w2 + 1 \<and>
           log_text w3 = (if logfile w2 = None then [] else log_text w2)
                         @ log_line (stamp w2 0) (snprintf_text (FNAME_LENGTH cfg) (''Error: '' @ deref w2 (Scratch temp_stringE))) \<and>
           fopen_calls w3 = (if logfile w2 = None then fopen_calls w2 + 1 else fopen_calls w2)" ..
  have pre3: "latch w3 = 0" "sink_usable w3"
    "fits cfg w3 (Other ''Terminating with error condition 1.'')"
    using log2 w3 ok by (simp_all add: sink_usable_def fits_def buffers_ok_def)
  from ephem_log_writes [OF pre3, of "Suc n"]
  obtain w4 where
    w4: "ephem_log (Suc (Suc n)) cfg (Other ''Terminating with error condition 1.'') w3 = Inr w4 \<and>
     slots w4 = (slots w3)(temp_stringD := deref w3 (Other ''Terminating with error condition 1.'')) \<and>
     latch w4 = 0 \<and> stderr_out w4 = stderr_out w3 \<and> stdout_out w4 = stdout_out w3 \<and>
     openable w4 = openable w3 \<and> friendly_time w4 = friendly_time w3 \<and>
     time_calls w4 = time_calls w3 + 1 \<and> logfile w4 \<noteq> None \<and>
     log_text w4 = (if logfile w3 = None then [] else log_text w3)
        @ log_line (stamp w3 0) (deref w3 (Other ''Terminating with error condition 1.'')) \<and>
     fopen_calls w4 = (if logfile w3 = None then fopen_calls w3 + 1 else fopen_calls w3)" ..
  have s4: "(if DEBUG cfg
             then ephem_log (Suc (Suc n)) cfg (Other ''Terminating with error condition 1.'') w3
             else Inr w3) = Inr w4"
    using dbg w4 by simp
  have run: "ephem_fatal (Suc (Suc (Suc n))) cfg file line msg w = exit_process 1 w4"
    unfolding ephem_fatal.simps s1 and_then_Inr Let_def
      fatal_intro_def [symmetric] intro_def [symmetric] w2 [THEN conjunct1]
      w3 [THEN conjunct1] s4 ..
  from exit_process_fields [of 1 w4] obtain w' where
    w': "exit_process 1 w4 = Inl (Exited 1, w') \<and>
     slots w' = slots w4 \<and> latch w' = latch w4 \<and>
     stderr_out w' = stderr_out w4 \<and> stdout_out w' = stdout_out w4 \<and>
     openable w' = openable w4 \<and> fopen_calls w' = fopen_calls w4 \<and>
     friendly_time w' = friendly_time w4 \<and> time_calls w' = time_calls w4 \<and>
     log_text w' = log_text w4 \<and> (logfile w' = None \<longleftrightarrow> logfile w4 = None) \<and>
     (logfile w4 = None \<longrightarrow> disk w' = disk w4)" ..
  have res: "ephem_fatal (Suc (Suc (Suc n))) cfg file line msg w = Inl (Exited 1, w')"
    using run w' by (simp only:)
  have stamps: "stamp w1 0 = stamp w 0" "stamp w2 0 = stamp w 1" "stamp w3 0 = stamp w 2"
    using w2 w3 by (simp_all add: stamp_def w1_def)
  show ?thesis
    apply (rule exI [of _ w'])
    apply (rule conjI [OF res])
    using w2 [THEN conjunct2] w3 [THEN conjunct2] w4 [THEN conjunct2] w' [THEN conjunct2] stamps
    apply (simp add: w1_def intro_def m_def)
    done
qed

lemma ephem_error_open_fails:
  assumes ok: "buffers_ok cfg" and fit: "fits cfg w msg"
    and dbg: "DEBUG cfg" and clear: "latch w = 0" and closed: "logfile w = None"
    and denied: "\<not> openable w ''ephem.log''"
  shows "\<exists>w'. ephem_error (Suc (Suc (Suc (Suc (Suc n))))) cfg msg w = Inl (Exited 1, w') \<and>
     stderr_out w' = stderr_out w
        @ snprintf_text (FNAME_LENGTH cfg)
            (''Error: '' @ fatal_intro cfg (FILE_macro cfg) 102 @ ''\<newline>'')
        @ snprintf_text (FNAME_LENGTH cfg)
            (''Error: Could not open log file to write.\<newline>'') \<and>
     stdout_out w' = stdout_out w \<and>
     logfile w' = None \<and> disk w' = disk w \<and>
     fopen_calls w' = fopen_calls w + 1 \<and> time_calls w' = time_calls w"
proof -
  define w1 where
    "w1 = (if msg = Scratch temp_stringA \<or> msg = Scratch temp_stringB then w
           else set_slot temp_stringA (deref w msg) w)"
  define k where "k = (if msg = Scratch temp_stringB then temp_stringB else temp_stringA)"
  define w1c where
    "w1c = set_slot temp_stringC (snprintf_text (FNAME_LENGTH cfg) (''Error: '' @ slots w1 k)) w1"
  have F: "0 < FNAME_LENGTH cfg" "FNAME_LENGTH cfg \<le> LSTR_LENGTH cfg"
    using ok by (simp_all add: buffers_ok_def)
  have pre: "latch w1c = 0" "logfile w1c = None" "\<not> openable w1c ''ephem.log''"
    using clear closed denied by (simp_all add: w1c_def w1_def)
  from ephem_log_open_fails [OF ok pre, of n "Scratch temp_stringC"]
  obtain w' where
    w': "ephem_log (Suc (Suc (Suc (Suc n)))) cfg (Scratch temp_stringC) w1c = Inl (Exited 1, w') \<and>
     stderr_out w' = stderr_out w1c
        @ snprintf_text (FNAME_LENGTH cfg)
            (''Error: '' @ fatal_intro cfg (FILE_macro cfg) 102 @ ''\<newline>'')
        @ snprintf_text (FNAME_LENGTH cfg)
            (''Error: Could not open log file to write.\<newline>'') \<and>
     stdout_out w' = stdout_out w1c \<and>
     logfile w' = None \<and> disk w' = disk w1c \<and>
     fopen_calls w' = fopen_calls w1c + 1 \<and> time_calls w' = time_calls w1c" ..
  have run: "ephem_error (Suc (Suc (Suc (Suc (Suc n))))) cfg msg w = Inl (Exited 1, w')"
    using dbg fit F w' [THEN conjunct1]
    by (cases "msg = Scratch temp_stringA"; cases "msg = Scratch temp_stringB")
       (simp_all add: ephem_error.simps w1c_def w1_def k_def strcpy_fits snprintf_fits)
  show ?thesis
    apply (rule exI [of _ w'])
    apply (rule conjI [OF run])
    using w' [THEN conjunct2]
    apply (simp add: w1c_def w1_def)
    done
qed

lemma ephem_fatal_open_fails:
  assumes ok: "buffers_ok cfg" and fit: "fits cfg w msg"
    and dbg: "DEBUG cfg" and clear: "latch w = 0" and closed: "logfile w = None"
    and denied: "\<not> openable w ''ephem.log''"
  shows "\<exists>w'. ephem_fatal (Suc (Suc (Suc (Suc (Suc (Suc n)))))) cfg file line msg w
        = Inl (Exited 1, w') \<and>
     stderr_out w' = stderr_out w
        @ snprintf_text (FNAME_LENGTH cfg)
            (''Error: '' @ fatal_intro cfg (FILE_macro cfg) 102 @ ''\<newline>'')
        @ snprintf_text (FNAME_LENGTH cfg)
            (''Error: Could not open log file to write.\<newline>'') \<and>
     stdout_out w' = stdout_out w \<and>
     logfile w' = None \<and> disk w' = disk w \<and>
     fopen_calls w' = fopen_calls w + 1 \<and> time_calls w' = time_calls w"
proof -
  define w1 where "w1 = set_slot temp_stringE (deref w msg) w"
  define intro where "intro = fatal_intro cfg (deref w1 file) line"
  have s1: "(if msg \<noteq> Scratch temp_stringE then strcpy cfg temp_stringE msg w else Inr w) = Inr w1"
    using fit by (auto simp add: strcpy_fits w1_def set_slot_def)
  have fit1: "fits cfg w1 (Other intro)"
    using fatal_intro_fits [OF ok] by (simp add: fits_def intro_def)
  have pre: "latch w1 = 0" "logfile w1 = None" "\<not> openable w1 ''ephem.log''"
    using clear closed denied by (simp_all add: w1_def)
  from ephem_error_open_fails [OF ok fit1 dbg pre, of n]
  obtain w' where
    w': "ephem_error (Suc (Suc (Suc (Suc (Suc n))))) cfg (Other intro) w1 = Inl (Exited 1, w') \<and>
     stderr_out w' = stderr_out w1
        @ snprintf_text (FNAME_LENGTH cfg)
            (''Error: '' @ fatal_intro cfg (FILE_macro cfg) 102 @ ''\<newline>'')
        @ snprintf_text (FNAME_LENGTH cfg)
            (''Error: Could not open log file to write.\<newline>'') \<and>
     stdout_out w' = stdout_out w1 \<and>
     logfile w' = None \<and> disk w' = disk w1 \<and>
     fopen_calls w' = fopen_calls w1 + 1 \<and> time_calls w' = time_calls w1" ..
  have run: "ephem_fatal (Suc (Suc (Suc (Suc (Suc (Suc n)))))) cfg file line msg w
        = Inl (Exited 1, w')"
    unfolding ephem_fatal.simps s1 and_then_Inr Let_def
      fatal_intro_def [symmetric] intro_def [symmetric] w' [THEN conjunct1] and_then_Inl ..
  show ?thesis
    apply (rule exI [of _ w'])
    apply (rule conjI [OF run])
    using w' [THEN conjunct2]
    apply (simp add: w1_def)
    done
qed

lemma ephem_fatal_exits:
  assumes ok: "buffers_ok cfg" and fit: "fits cfg w msg"
  shows "\<exists>w'. ephem_fatal (Suc (Suc (Suc (Suc (Suc (Suc k)))))) cfg fl ln msg w
           = Inl (Exited 1, w')"
proof -
  consider (quiet) "\<not> DEBUG cfg \<or> latch w \<noteq> 0"
    | (logged) "DEBUG cfg" "latch w = 0" "sink_usable w"
    | (denied) "DEBUG cfg" "latch w = 0" "logfile w = None" "\<not> openable w ''ephem.log''"
    by (auto simp add: sink_usable_def)
  then show ?thesis
  proof cases
    case quiet
    from ephem_fatal_quiet [OF ok fit quiet, of "Suc (Suc (Suc k))" fl ln]
    show ?thesis by blast
  next
    case logged
    from ephem_fatal_logged [OF ok fit logged, of "Suc (Suc (Suc k))" fl ln]
    show ?thesis by blast
  next
    case denied
    from ephem_fatal_open_fails [OF ok fit denied, of k fl ln]
    show ?thesis by blast
  qed
qed

lemma ephem_fatal_never_returns: "ephem_fatal n cfg file line msg w \<noteq> Inr w'"
proof (cases n)
  case 0
  then show ?thesis by (simp add: ephem_fatal.simps)
next
  case (Suc k)
  show ?thesis
  proof
    assume "ephem_fatal n cfg file line msg w = Inr w'"
    then obtain w1 w2 w3 w4 where "exit_process 1 w4 = Inr w'"
      unfolding Suc ephem_fatal.simps Let_def
      by (blast dest: and_then_returns)
    then show False
      by (simp add: exit_process_no_return)
  qed
qed

section \<open>Exit statuses\<close>

lemma exit_status_is_1:
  "(\<forall>cfg msg w c w'. ephem_error n cfg msg w = Inl (Exited c, w') \<longrightarrow> c = 1) \<and>
   (\<forall>cfg file line msg w c w'. ephem_fatal n cfg file line msg w = Inl (Exited c, w') \<longrightarrow> c = 1) \<and>
   (\<forall>cfg msg w c w'. ephem_log n cfg msg w = Inl (Exited c, w') \<longrightarrow> c = 1)"
proof (induction n)
  case 0
  show ?case by (simp add: ephem_error.simps ephem_fatal.simps ephem_log.simps)
next
  case (Suc n)
  then have ihe: "\<And>cfg msg w c w'. ephem_error n cfg msg w = Inl (Exited c, w') \<Longrightarrow> c = 1"
    and ihf: "\<And>cfg file line msg w c w'.
                ephem_fatal n cfg file line msg w = Inl (Exited c, w') \<Longrightarrow> c = 1"
    and ihl: "\<And>cfg msg w c w'. ephem_log n cfg msg w = Inl (Exited c, w') \<Longrightarrow> c = 1"
    by blast+
  have e: "c = 1" if "ephem_error (Suc n) cfg msg w = Inl (Exited c, w')" for cfg msg w c w'
    using that
    by (auto simp add: ephem_error.simps Let_def strcpy_no_exit snprintf_no_exit
          dest!: and_then_stops dest: ihl split: if_splits)
  have f: "c = 1" if "ephem_fatal (Suc n) cfg fl ln msg w = Inl (Exited c, w')"
    for cfg fl ln msg w c w'
    using that
    by (auto simp add: ephem_fatal.simps Let_def strcpy_no_exit
          dest!: and_then_stops exit_process_status dest: ihe ihl split: if_splits)
  have l: "c = 1" if "ephem_log (Suc n) cfg msg w = Inl (Exited c, w')" for cfg msg w c w'
    using that
    by (auto simp add: ephem_log.simps Let_def strcpy_no_exit
          dest!: and_then_stops exit_process_status dest: ihf
          split: if_splits prod.splits option.splits)
  show ?case
    using e f l by blast
qed

lemma ephem_error_exit_status:
  "ephem_error n cfg msg w = Inl (Exited c, w') \<Longrightarrow> c = 1"
  using exit_status_is_1 [of n] by blast

lemma ephem_fatal_exit_status:
  "ephem_fatal n cfg fl ln msg w = Inl (Exited c, w') \<Longrightarrow> c = 1"
  using exit_status_is_1 [of n] by blast

lemma ephem_log_exit_status:
  "ephem_log n cfg msg w = Inl (Exited c, w') \<Longrightarrow> c = 1"
  using exit_status_is_1 [of n] by blast

lemma ephem_warning_exit_status:
  "ephem_warning n cfg msg w = Inl (Exited c, w') \<Longrightarrow> c = 1"
  by (cases n)
     (auto simp add: ephem_warning.simps strcpy_no_exit snprintf_no_exit
        dest!: and_then_stops dest: ephem_log_exit_status split: if_splits)

lemma ephem_report_exit_status:
  "ephem_report n cfg msg w = Inl (Exited c, w') \<Longrightarrow> c = 1"
  by (cases n)
     (auto simp add: ephem_report.simps strcpy_no_exit snprintf_no_exit
        dest!: and_then_stops dest: ephem_log_exit_status split: if_splits)

lemma dcffread_exit_status:
  "dcffread n cfg sz nmemb src w = Inl (Exited c, w') \<Longrightarrow> c = 1"
  by (cases n)
     (auto simp add: dcffread.simps dest: ephem_fatal_exit_status
        split: if_splits prod.splits sum.splits)

lemma aliased_call_eq:
  "(fits cfg w (Scratch temp_stringA) \<longrightarrow>
      ephem_error n cfg (Scratch temp_stringA) w
        = ephem_error n cfg (Other (slots w temp_stringA)) w \<and>
      ephem_warning n cfg (Scratch temp_stringA) w
        = ephem_warning n cfg (Other (slots w temp_stringA)) w \<and>
      ephem_report n cfg (Scratch temp_stringA) w
        = ephem_report n cfg (Other (slots w temp_stringA)) w) \<and>
   (fits cfg w (Scratch temp_stringE) \<longrightarrow>
      ephem_fatal n cfg fl ln (Scratch temp_stringE) w
        = ephem_fatal n cfg fl ln (Other (slots w temp_stringE)) w) \<and>
   (fits cfg w (Scratch temp_stringD) \<longrightarrow>
      ephem_log n cfg (Scratch temp_stringD) w
        = ephem_log n cfg (Other (slots w temp_stringD)) w)"
proof (intro conjI impI)
  assume a: "fits cfg w (Scratch temp_stringA)"
  show "ephem_error n cfg (Scratch temp_stringA) w
        = ephem_error n cfg (Other (slots w temp_stringA)) w"
    by (cases n) (simp_all add: ephem_error.simps strcpy_own_text [OF a])
  show "ephem_warning n cfg (Scratch temp_stringA) w
        = ephem_warning n cfg (Other (slots w temp_stringA)) w"
    by (cases n) (simp_all add: ephem_warning.simps strcpy_own_text [OF a])
  show "ephem_report n cfg (Scratch temp_stringA) w
        = ephem_report n cfg (Other (slots w temp_stringA)) w"
    by (cases n) (simp_all add: ephem_report.simps strcpy_own_text [OF a])
next
  assume a: "fits cfg w (Scratch temp_stringE)"
  show "ephem_fatal n cfg fl ln (Scratch temp_stringE) w
        = ephem_fatal n cfg fl ln (Other (slots w temp_stringE)) w"
    by (cases n) (simp_all add: ephem_fatal.simps strcpy_own_text [OF a])
next
  assume a: "fits cfg w (Scratch temp_stringD)"
  have "strcpy cfg temp_stringD (Other (slots w temp_stringD)) (w\<lparr>latch := l\<rparr>)
          = Inr (w\<lparr>latch := l\<rparr>)" for l
    using a strcpy_own_text [of cfg "w\<lparr>latch := l\<rparr>" temp_stringD]
    by (simp add: fits_def)
  then show "ephem_log n cfg (Scratch temp_stringD) w
        = ephem_log n cfg (Other (slots w temp_stringD)) w"
    using a
    by (cases n)
       (auto simp add: ephem_log.simps Let_def fopen_w_def setvbuf_IOLBF_def strcpy_def
          fits_def set_slot_def and_then_exit_absorbs split: prod.splits option.splits)
qed

section \<open>Facts about the example instances\<close>

lemma fmt_d_examples: "fmt_d 102 = ''102''" "fmt_d 114 = ''114''" "fmt_d 42 = ''42''"
  by (simp_all add: fmt_d_def dec_digits.simps)

lemma example_builds_ok: "buffers_ok debug_build" "buffers_ok release_build"
  by (simp_all add: buffers_ok_def debug_build_def release_build_def)

lemma debug_build_fields:
  "LSTR_LENGTH debug_build = 32768" "FNAME_LENGTH debug_build = 4096"
  "DEBUG debug_build" "FILE_macro debug_build = ''src/coreUtils/errorReport.c''"
  by (simp_all add: debug_build_def)

lemma release_build_fields:
  "LSTR_LENGTH release_build = 32768" "FNAME_LENGTH release_build = 4096"
  "\<not> DEBUG release_build" "FILE_macro release_build = ''src/coreUtils/errorReport.c''"
  by (simp_all add: release_build_def debug_build_def)

lemma fatal_intro_examples:
  "fatal_intro debug_build ''src/coreUtils/errorReport.c'' 102
     = ''Fatal Error encountered in src/coreUtils/errorReport.c at line 102:''"
  "fatal_intro debug_build ''src/coreUtils/errorReport.c'' 114
     = ''Fatal Error encountered in src/coreUtils/errorReport.c at line 114:''"
  "fatal_intro release_build ''src/coreUtils/errorReport.c'' 114
     = ''Fatal Error encountered in src/coreUtils/errorReport.c at line 114:''"
  "fatal_intro debug_build ''main.c'' 42 = ''Fatal Error encountered in main.c at line 42:''"
  "fatal_intro release_build ''main.c'' 42 = ''Fatal Error encountered in main.c at line 42:''"
  by (simp_all add: fatal_intro_def debug_build_fields release_build_fields snprintf_text_def
        fmt_d_examples)

lemma clock_examples: "clock 0 = ''t0''" "clock 1 = ''t1''" "clock 2 = ''t2''"
  by (simp_all add: clock_def dec_digits.simps)

lemma clock_examples_Suc: "clock (Suc 0) = ''t1''" "clock (Suc (Suc 0)) = ''t2''"
  using clock_examples by (simp_all add: numeral_2_eq_2)

section \<open>The claims\<close>

text \<open>
  C1, as the code has it. A top-level call of \<^verbatim>\<open>ephem_fatal\<close> (latch clear) with a
  message that fits writes the location line and the message line to stderr and ends the
  process with status 1. What reaches the log depends on the debug switch, because the two
  lines go through \<^verbatim>\<open>ephem_error\<close>, which mirrors only under \<^verbatim>\<open>if (DEBUG)\<close>: with
  debugging on (and a log that is open or can be opened) the log receives the two lines
  and then the termination marker; with debugging off the log receives nothing, no file is
  opened and, when the log was not open, no file changes.
\<close>

theorem fatal_mirrors_to_log_only_in_debug:
  assumes "buffers_ok cfg" and "fits cfg w msg" and "latch w = 0"
    and "DEBUG cfg \<longrightarrow> sink_usable w" and "3 \<le> n"
  shows "\<exists>w'. ephem_fatal n cfg fl ln msg w = Inl (Exited 1, w') \<and>
     stderr_out w' = stderr_out w
        @ snprintf_text (FNAME_LENGTH cfg)
            (''Error: '' @ fatal_intro cfg (deref (set_slot temp_stringE (deref w msg) w) fl) ln
             @ ''\<newline>'')
        @ snprintf_text (FNAME_LENGTH cfg) (''Error: '' @ deref w msg @ ''\<newline>'') \<and>
     (if DEBUG cfg
      then log_text w' = (if logfile w = None then [] else log_text w)
             @ log_line (stamp w 0) (snprintf_text (FNAME_LENGTH cfg)
                 (''Error: '' @ fatal_intro cfg (deref (set_slot temp_stringE (deref w msg) w) fl) ln))
             @ log_line (stamp w 1) (snprintf_text (FNAME_LENGTH cfg) (''Error: '' @ deref w msg))
             @ log_line (stamp w 2) ''Terminating with error condition 1.''
      else log_text w' = log_text w \<and> (logfile w' = None \<longleftrightarrow> logfile w = None) \<and>
           (logfile w = None \<longrightarrow> disk w' = disk w) \<and>
           fopen_calls w' = fopen_calls w \<and> time_calls w' = time_calls w)"
proof -
  from assms(5) obtain k where k: "n = Suc (Suc (Suc k))"
    using fuel_3 by blast
  show ?thesis
  proof (cases "DEBUG cfg")
    case True
    with assms(4) have "sink_usable w" by simp
    from ephem_fatal_logged [OF assms(1,2) True assms(3) this, of k fl ln]
    show ?thesis
      unfolding k using True by auto
  next
    case False
    then have "\<not> DEBUG cfg \<or> latch w \<noteq> 0" by simp
    from ephem_fatal_quiet [OF assms(1,2) this, of k fl ln]
    show ?thesis
      unfolding k using False by auto
  qed
qed

theorem fatal_mirrors_to_log_only_in_debug_witness:
  "buffers_ok debug_build \<and> fits debug_build fresh_world (Other ''boom'') \<and>
   latch fresh_world = 0 \<and> sink_usable fresh_world \<and>
   stopped (ephem_fatal 3 debug_build (Other ''main.c'') 42 (Other ''boom'') fresh_world)
     = Some (Exited 1) \<and>
   stderr_out (final_world (ephem_fatal 3 debug_build (Other ''main.c'') 42 (Other ''boom'') fresh_world))
     = ''Error: Fatal Error encountered in main.c at line 42:\<newline>Error: boom\<newline>'' \<and>
   log_text (final_world (ephem_fatal 3 debug_build (Other ''main.c'') 42 (Other ''boom'') fresh_world))
     = ''[t0] Error: Fatal Error encountered in main.c at line 42:\<newline>''
       @ ''[t1] Error: boom\<newline>''
       @ ''[t2] Terminating with error condition 1.\<newline>''"
proof -
  have pre: "buffers_ok debug_build" "fits debug_build fresh_world (Other ''boom'')"
    "latch fresh_world = 0" "DEBUG debug_build \<longrightarrow> sink_usable fresh_world" "(3::nat) \<le> 3"
    by (simp_all add: example_builds_ok fits_def debug_build_fields sink_usable_def
          fresh_world_def start_world_def)
  from fatal_mirrors_to_log_only_in_debug [OF pre, of "Other ''main.c''" 42]
  obtain w' where w': "ephem_fatal 3 debug_build (Other ''main.c'') 42 (Other ''boom'') fresh_world
        = Inl (Exited 1, w')"
    and out: "stderr_out w' = stderr_out fresh_world
        @ snprintf_text (FNAME_LENGTH debug_build)
            (''Error: '' @ fatal_intro debug_build (deref (set_slot temp_stringE (deref fresh_world (Other ''boom'')) fresh_world) (Other ''main.c'')) 42
             @ ''\<newline>'')
        @ snprintf_text (FNAME_LENGTH debug_build) (''Error: '' @ deref fresh_world (Other ''boom'') @ ''\<newline>'')"
    and lg: "log_text w' = (if logfile fresh_world = None then [] else log_text fresh_world)
             @ log_line (stamp fresh_world 0) (snprintf_text (FNAME_LENGTH debug_build)
                 (''Error: '' @ fatal_intro debug_build (deref (set_slot temp_stringE (deref fresh_world (Other ''boom'')) fresh_world) (Other ''main.c'')) 42))
             @ log_line (stamp fresh_world 1) (snprintf_text (FNAME_LENGTH debug_build) (''Error: '' @ deref fresh_world (Other ''boom'')))
             @ log_line (stamp fresh_world 2) ''Terminating with error condition 1.''"
    by (auto simp add: debug_build_fields)
  have st: "stamp fresh_world 0 = ''t0''" "stamp fresh_world 1 = ''t1''" "stamp fresh_world 2 = ''t2''"
    "stamp fresh_world (Suc 0) = ''t1''"
    "logfile fresh_world = None" "stderr_out fresh_world = []"
    by (simp_all add: stamp_def fresh_world_def start_world_def clock_examples
          clock_examples_Suc)
  have a: "stderr_out w' = ''Error: Fatal Error encountered in main.c at line 42:\<newline>Error: boom\<newline>''"
    unfolding out
    by (simp add: st fatal_intro_examples debug_build_fields snprintf_text_def)
  have b: "log_text w' = ''[t0] Error: Fatal Error encountered in main.c at line 42:\<newline>''
       @ ''[t1] Error: boom\<newline>''
       @ ''[t2] Terminating with error condition 1.\<newline>''"
    unfolding lg
    by (simp add: st fatal_intro_examples debug_build_fields snprintf_text_def log_line_def)
  have s: "sink_usable fresh_world"
    using pre(4) by (simp add: debug_build_fields)
  show ?thesis
    using pre(1-3) s by (simp add: w' a b stopped_def final_world_def)
qed

text \<open>
  C1, as the spec has it, fails: with debugging off, a fatal call in a directory where the
  log could be created ends the process with status 1 after its two stderr lines, and the
  log has received nothing: the stream is still unopened, \<^verbatim>\<open>fopen\<close> was never called
  and \<^verbatim>\<open>ephem.log\<close> does not exist.
\<close>

theorem fatal_without_debug_writes_no_log:
  "\<not> DEBUG release_build \<and> openable fresh_world ''ephem.log'' \<and>
   stopped (ephem_fatal 3 release_build (Other ''main.c'') 42 (Other ''boom'') fresh_world)
     = Some (Exited 1) \<and>
   stderr_out (final_world (ephem_fatal 3 release_build (Other ''main.c'') 42 (Other ''boom'') fresh_world))
     = ''Error: Fatal Error encountered in main.c at line 42:\<newline>Error: boom\<newline>'' \<and>
   logfile (final_world (ephem_fatal 3 release_build (Other ''main.c'') 42 (Other ''boom'') fresh_world))
     = None \<and>
   fopen_calls (final_world (ephem_fatal 3 release_build (Other ''main.c'') 42 (Other ''boom'') fresh_world))
     = 0 \<and>
   disk (final_world (ephem_fatal 3 release_build (Other ''main.c'') 42 (Other ''boom'') fresh_world))
     ''ephem.log'' = None"
proof -
  have pre: "buffers_ok release_build" "fits release_build fresh_world (Other ''boom'')"
    "\<not> DEBUG release_build \<or> latch fresh_world \<noteq> 0"
    by (simp_all add: example_builds_ok fits_def release_build_fields)
  from ephem_fatal_quiet [OF pre, of 0 "Other ''main.c''" 42]
  obtain w' where w': "ephem_fatal 3 release_build (Other ''main.c'') 42 (Other ''boom'') fresh_world
        = Inl (Exited 1, w')"
    and out: "stderr_out w' = stderr_out fresh_world
        @ snprintf_text (FNAME_LENGTH release_build)
            (''Error: '' @ fatal_intro release_build (deref (set_slot temp_stringE (deref fresh_world (Other ''boom'')) fresh_world) (Other ''main.c'')) 42
             @ ''\<newline>'')
        @ snprintf_text (FNAME_LENGTH release_build) (''Error: '' @ deref fresh_world (Other ''boom'') @ ''\<newline>'')"
    and rest: "logfile w' = None \<longleftrightarrow> logfile fresh_world = None"
      "logfile fresh_world = None \<longrightarrow> disk w' = disk fresh_world"
      "fopen_calls w' = fopen_calls fresh_world"
    by (auto simp add: numeral_3_eq_3)
  have st: "logfile fresh_world = None" "stderr_out fresh_world = []"
    "disk fresh_world ''ephem.log'' = None" "fopen_calls fresh_world = 0"
    "openable fresh_world ''ephem.log''"
    by (simp_all add: fresh_world_def start_world_def)
  have a: "stderr_out w' = ''Error: Fatal Error encountered in main.c at line 42:\<newline>Error: boom\<newline>''"
    unfolding out
    by (simp add: st fatal_intro_examples release_build_fields snprintf_text_def)
  show ?thesis
    using rest st by (simp add: w' a stopped_def final_world_def release_build_fields)
qed

text \<open>
  C2, as the code has it. A call of \<^verbatim>\<open>ephem_fatal\<close> never returns to its caller,
  whatever its arguments and the state. With a call depth of six, buffers that hold the
  facility's own texts and a message that fits its scratch buffer (the precondition of the
  unchecked copy into \<^verbatim>\<open>temp_stringE\<close>), the call ends the process with exit status 1;
  this covers the state in which \<^verbatim>\<open>ephem.log\<close> cannot be opened. No function of the
  facility ends the process with any other status.
\<close>

theorem fatal_never_returns_and_exits_with_status_1:
  "(\<forall>w'. ephem_fatal n cfg fl ln msg w \<noteq> Inr w') \<and>
   (buffers_ok cfg \<and> fits cfg w msg \<and> 6 \<le> n \<longrightarrow>
      (\<exists>w'. ephem_fatal n cfg fl ln msg w = Inl (Exited 1, w'))) \<and>
   (\<forall>c w'. ephem_fatal n cfg fl ln msg w = Inl (Exited c, w') \<longrightarrow> c = 1) \<and>
   (\<forall>c w'. ephem_error n cfg msg w = Inl (Exited c, w') \<longrightarrow> c = 1) \<and>
   (\<forall>c w'. ephem_warning n cfg msg w = Inl (Exited c, w') \<longrightarrow> c = 1) \<and>
   (\<forall>c w'. ephem_report n cfg msg w = Inl (Exited c, w') \<longrightarrow> c = 1) \<and>
   (\<forall>c w'. ephem_log n cfg msg w = Inl (Exited c, w') \<longrightarrow> c = 1) \<and>
   (\<forall>c w' sz nmemb src. dcffread n cfg sz nmemb src w = Inl (Exited c, w') \<longrightarrow> c = 1)"
proof (intro conjI allI impI)
  fix w'
  show "ephem_fatal n cfg fl ln msg w \<noteq> Inr w'"
    by (rule ephem_fatal_never_returns)
next
  assume a: "buffers_ok cfg \<and> fits cfg w msg \<and> 6 \<le> n"
  then obtain k where "n = Suc (Suc (Suc (Suc (Suc (Suc k)))))"
    using fuel_6 by blast
  with a show "\<exists>w'. ephem_fatal n cfg fl ln msg w = Inl (Exited 1, w')"
    by (simp add: ephem_fatal_exits)
next
  fix c w'
  assume "ephem_fatal n cfg fl ln msg w = Inl (Exited c, w')"
  then show "c = 1"
    by (rule ephem_fatal_exit_status)
next
  fix c w'
  assume "ephem_error n cfg msg w = Inl (Exited c, w')"
  then show "c = 1"
    by (rule ephem_error_exit_status)
next
  fix c w'
  assume "ephem_warning n cfg msg w = Inl (Exited c, w')"
  then show "c = 1"
    by (rule ephem_warning_exit_status)
next
  fix c w'
  assume "ephem_report n cfg msg w = Inl (Exited c, w')"
  then show "c = 1"
    by (rule ephem_report_exit_status)
next
  fix c w'
  assume "ephem_log n cfg msg w = Inl (Exited c, w')"
  then show "c = 1"
    by (rule ephem_log_exit_status)
next
  fix c w' sz nmemb src
  assume "dcffread n cfg sz nmemb src w = Inl (Exited c, w')"
  then show "c = 1"
    by (rule dcffread_exit_status)
qed

theorem fatal_never_returns_and_exits_with_status_1_witness:
  "buffers_ok debug_build \<and> fits debug_build readonly_world (Other ''boom'') \<and>
   stopped (ephem_fatal 6 debug_build (Other ''main.c'') 42 (Other ''boom'') readonly_world)
     = Some (Exited 1) \<and>
   buffers_ok release_build \<and> fits release_build fresh_world (Other ''boom'') \<and>
   stopped (ephem_fatal 6 release_build (Other ''main.c'') 42 (Other ''boom'') fresh_world)
     = Some (Exited 1)"
proof -
  have pre1: "buffers_ok debug_build \<and> fits debug_build readonly_world (Other ''boom'') \<and> (6::nat) \<le> 6"
    by (simp add: example_builds_ok fits_def debug_build_fields)
  have pre2: "buffers_ok release_build \<and> fits release_build fresh_world (Other ''boom'') \<and> (6::nat) \<le> 6"
    by (simp add: example_builds_ok fits_def release_build_fields)
  from fatal_never_returns_and_exits_with_status_1
         [where n = 6 and cfg = debug_build and w = readonly_world and msg = "Other ''boom''"
            and fl = "Other ''main.c''" and ln = 42] pre1
  obtain w1 where
    w1: "ephem_fatal 6 debug_build (Other ''main.c'') 42 (Other ''boom'') readonly_world
           = Inl (Exited 1, w1)"
    by blast
  from fatal_never_returns_and_exits_with_status_1
         [where n = 6 and cfg = release_build and w = fresh_world and msg = "Other ''boom''"
            and fl = "Other ''main.c''" and ln = 42] pre2
  obtain w2 where
    w2: "ephem_fatal 6 release_build (Other ''main.c'') 42 (Other ''boom'') fresh_world
           = Inl (Exited 1, w2)"
    by blast
  show ?thesis
    using pre1 pre2 by (simp add: w1 w2 stopped_def)
qed

text \<open>
  C2, as the spec has it, fails for a message that does not fit: with a message of 40000
  characters the copy into \<^verbatim>\<open>temp_stringE\<close>, the first statement of \<^verbatim>\<open>ephem_fatal\<close>,
  runs past the end of the 32768 bytes of the buffer. The behaviour is undefined from
  there on; nothing has been written and no exit with status 1 has been reached.
\<close>

theorem fatal_with_long_message_overruns:
  "LSTR_LENGTH release_build = 32768 \<and>
   stopped (ephem_fatal 6 release_build (Other ''main.c'') 42
              (Other (replicate 40000 CHR ''x'')) fresh_world)
     = Some (Overrun temp_stringE) \<and>
   stderr_out (final_world (ephem_fatal 6 release_build (Other ''main.c'') 42
              (Other (replicate 40000 CHR ''x'')) fresh_world)) = []"
proof -
  have "ephem_fatal (Suc 5) release_build (Other ''main.c'') 42
          (Other (replicate 40000 CHR ''x'')) fresh_world
        = Inl (Overrun temp_stringE, fresh_world)"
    by (simp only: ephem_fatal.simps) (simp add: strcpy_def release_build_fields)
  then have "ephem_fatal 6 release_build (Other ''main.c'') 42
          (Other (replicate 40000 CHR ''x'')) fresh_world
        = Inl (Overrun temp_stringE, fresh_world)"
    by simp
  then show ?thesis
    by (simp add: stopped_def final_world_def release_build_fields fresh_world_def
          start_world_def)
qed

text \<open>
  C3, as the code has it. The first write (latch clear, stream not open, the path can be
  opened) opens \<^verbatim>\<open>ephem.log\<close> with mode \<^verbatim>\<open>"w"\<close>: the file is created if absent and
  cut to length zero if present, so that after the call it holds exactly the one new
  line, whatever it held before; the stream is line buffered and its buffer is empty.
\<close>

theorem first_log_write_truncates_and_line_buffers:
  assumes "latch w = 0" and "logfile w = None" and "openable w ''ephem.log''"
    and "fits cfg w msg"
  shows "\<exists>w'. ephem_log (Suc n) cfg msg w = Inr w' \<and>
     logfile w' = Some \<lparr>path = ''ephem.log'', mode = LineBuffered, pending = []\<rparr> \<and>
     disk w' = (disk w)(''ephem.log'' \<mapsto> log_line (stamp w 0) (deref w msg)) \<and>
     fopen_calls w' = fopen_calls w + 1"
  using assms
  by (cases msg)
     (auto simp add: ephem_log.simps fopen_w_def setvbuf_IOLBF_def strcpy_def fits_def Let_def
        stream_write_def append_file_def log_line_fold stamp_def set_slot_def)

theorem first_log_write_truncates_and_line_buffers_witness:
  "latch old_log_world = 0 \<and> logfile old_log_world = None \<and>
   openable old_log_world ''ephem.log'' \<and> fits release_build old_log_world (Other ''hello'') \<and>
   stopped (ephem_log 1 release_build (Other ''hello'') old_log_world) = None \<and>
   logfile (final_world (ephem_log 1 release_build (Other ''hello'') old_log_world))
     = Some \<lparr>path = ''ephem.log'', mode = LineBuffered, pending = []\<rparr> \<and>
   disk (final_world (ephem_log 1 release_build (Other ''hello'') old_log_world)) ''ephem.log''
     = Some ''[t0] hello\<newline>'' \<and>
   fopen_calls (final_world (ephem_log 1 release_build (Other ''hello'') old_log_world)) = 1"
proof -
  have pre: "latch old_log_world = 0" "logfile old_log_world = None"
    "openable old_log_world ''ephem.log''" "fits release_build old_log_world (Other ''hello'')"
    by (simp_all add: old_log_world_def start_world_def fits_def release_build_fields)
  from first_log_write_truncates_and_line_buffers [OF pre, of 0]
  obtain w' where w': "ephem_log (Suc 0) release_build (Other ''hello'') old_log_world = Inr w' \<and>
     logfile w' = Some \<lparr>path = ''ephem.log'', mode = LineBuffered, pending = []\<rparr> \<and>
     disk w' = (disk old_log_world)(''ephem.log'' \<mapsto>
        log_line (stamp old_log_world 0) (deref old_log_world (Other ''hello''))) \<and>
     fopen_calls w' = fopen_calls old_log_world + 1" ..
  have st: "stamp old_log_world 0 = ''t0''"
    by (simp add: stamp_def old_log_world_def start_world_def clock_examples)
  show ?thesis
    using pre w' by (simp add: stopped_def final_world_def st log_line_def)
       (simp add: old_log_world_def start_world_def)
qed

text \<open>
  C3, as the spec has it, fails: a log file that holds \<open>old line\<close> before the first
  write holds only the new line after it. The earlier content is not kept.
\<close>

theorem first_log_write_discards_old_content:
  "disk old_log_world ''ephem.log'' = Some ''old line\<newline>'' \<and>
   disk (final_world (ephem_log 1 release_build (Other ''hello'') old_log_world)) ''ephem.log''
     = Some ''[t0] hello\<newline>''"
  by (simp add: ephem_log.simps fopen_w_def setvbuf_IOLBF_def strcpy_def Let_def
        stream_write_def append_file_def set_slot_def final_world_def
        old_log_world_def start_world_def release_build_fields clock_examples
        complete_lines_def)

text \<open>
  C4, as the code has it. The store into a scratch buffer is \<^verbatim>\<open>strcpy\<close>, a copy with no
  bound, whose precondition is that the message is shorter than \<open>LSTR_LENGTH\<close>. Under
  that precondition the buffer receives the message verbatim and nothing is written past
  its end; \<^verbatim>\<open>ephem_log\<close> then writes the whole message to the log, and
  \<^verbatim>\<open>ephem_error\<close> writes the first \<open>FNAME_LENGTH - 1\<close> characters of the formatted
  line, which is the whole line, with the message verbatim, when the line and its
  terminator fit \<open>FNAME_LENGTH\<close>.
\<close>

theorem store_is_verbatim_for_message_that_fits:
  assumes "buffers_ok cfg" and "length m < LSTR_LENGTH cfg"
    and "latch w = 0" and "sink_usable w" and "2 \<le> n"
  shows
    "strcpy cfg k (Other m) w = Inr (set_slot k m w) \<and>
     (\<exists>w'. ephem_error n cfg (Other m) w = Inr w' \<and>
        slots w' temp_stringA = m \<and>
        stderr_out w' = stderr_out w
          @ take (FNAME_LENGTH cfg - 1) (''Error: '' @ m @ ''\<newline>'') \<and>
        (length (''Error: '' @ m @ ''\<newline>'') < FNAME_LENGTH cfg \<longrightarrow>
           stderr_out w' = stderr_out w @ ''Error: '' @ m @ ''\<newline>'')) \<and>
     (\<exists>w'. ephem_log n cfg (Other m) w = Inr w' \<and>
        slots w' temp_stringD = m \<and>
        log_text w' = (if logfile w = None then [] else log_text w) @ log_line (stamp w 0) m)"
proof -
  from assms(5) obtain j where j: "n = Suc (Suc j)"
    using fuel_2 by blast
  have fit: "fits cfg w (Other m)"
    using assms(2) by (simp add: fits_def)
  have sink: "DEBUG cfg \<and> latch w = 0 \<longrightarrow> sink_usable w"
    using assms(4) by simp
  have s: "strcpy cfg k (Other m) w = Inr (set_slot k m w)"
    using strcpy_fits [OF fit] by simp
  from ephem_error_returns [OF assms(1) fit sink, of j]
  have e: "\<exists>w'. ephem_error n cfg (Other m) w = Inr w' \<and>
        slots w' temp_stringA = m \<and>
        stderr_out w' = stderr_out w
          @ take (FNAME_LENGTH cfg - 1) (''Error: '' @ m @ ''\<newline>'') \<and>
        (length (''Error: '' @ m @ ''\<newline>'') < FNAME_LENGTH cfg \<longrightarrow>
           stderr_out w' = stderr_out w @ ''Error: '' @ m @ ''\<newline>'')"
    unfolding j snprintf_text_def by auto
  from ephem_log_writes [OF assms(3,4) fit, of "Suc j"]
  have l: "\<exists>w'. ephem_log n cfg (Other m) w = Inr w' \<and>
        slots w' temp_stringD = m \<and>
        log_text w' = (if logfile w = None then [] else log_text w) @ log_line (stamp w 0) m"
    unfolding j by auto
  from s e l show ?thesis by (intro conjI)
qed

theorem store_is_verbatim_for_message_that_fits_witness:
  "buffers_ok release_build \<and> length ''disk full'' < LSTR_LENGTH release_build \<and>
   latch fresh_world = 0 \<and> sink_usable fresh_world \<and>
   strcpy release_build temp_stringB (Other ''disk full'') fresh_world
     = Inr (set_slot temp_stringB ''disk full'' fresh_world) \<and>
   slots (final_world (ephem_error 2 release_build (Other ''disk full'') fresh_world)) temp_stringA
     = ''disk full'' \<and>
   stderr_out (final_world (ephem_error 2 release_build (Other ''disk full'') fresh_world))
     = ''Error: disk full\<newline>'' \<and>
   slots (final_world (ephem_log 2 release_build (Other ''disk full'') fresh_world)) temp_stringD
     = ''disk full'' \<and>
   log_text (final_world (ephem_log 2 release_build (Other ''disk full'') fresh_world))
     = ''[t0] disk full\<newline>''"
proof -
  have st: "latch fresh_world = 0" "logfile fresh_world = None" "stderr_out fresh_world = []"
    "stdout_out fresh_world = []" "stamp fresh_world 0 = ''t0''" "sink_usable fresh_world"
    by (simp_all add: fresh_world_def start_world_def stamp_def clock_examples sink_usable_def)
  have pre: "buffers_ok release_build" "length ''disk full'' < LSTR_LENGTH release_build"
    "latch fresh_world = 0" "sink_usable fresh_world" "(2::nat) \<le> 2"
    by (simp_all add: example_builds_ok release_build_fields st)
  from store_is_verbatim_for_message_that_fits [OF pre, of temp_stringB]
  obtain w1 w2 where
    s: "strcpy release_build temp_stringB (Other ''disk full'') fresh_world
          = Inr (set_slot temp_stringB ''disk full'' fresh_world)"
    and w1: "ephem_error 2 release_build (Other ''disk full'') fresh_world = Inr w1"
      "slots w1 temp_stringA = ''disk full''"
      "stderr_out w1 = stderr_out fresh_world
          @ take (FNAME_LENGTH release_build - 1) (''Error: '' @ ''disk full'' @ ''\<newline>'')"
    and w2: "ephem_log 2 release_build (Other ''disk full'') fresh_world = Inr w2"
      "slots w2 temp_stringD = ''disk full''"
      "log_text w2 = (if logfile fresh_world = None then [] else log_text fresh_world)
         @ log_line (stamp fresh_world 0) ''disk full''"
    by blast
  show ?thesis
    using pre(1-4) s w1 w2
    by (simp add: final_world_def st log_line_def release_build_fields)
qed

text \<open>
  C4, as the spec has it, fails in both halves. A message of 40000 characters, longer
  than the 32768 bytes of a scratch buffer, is not cut: the copy into
  \<^verbatim>\<open>temp_stringA\<close> (in \<^verbatim>\<open>ephem_error\<close>) or \<^verbatim>\<open>temp_stringD\<close> (in \<^verbatim>\<open>ephem_log\<close>) runs
  past the end of the buffer. A message of 5000 characters, within the capacity of the
  buffer, is not emitted verbatim: stderr receives 4088 of its characters and no newline.
\<close>

theorem long_message_overruns_and_medium_message_is_cut:
  "LSTR_LENGTH release_build = 32768 \<and>
   stopped (ephem_error 2 release_build (Other (replicate 40000 CHR ''x'')) fresh_world)
     = Some (Overrun temp_stringA) \<and>
   stopped (ephem_log 2 release_build (Other (replicate 40000 CHR ''x'')) fresh_world)
     = Some (Overrun temp_stringD) \<and>
   length (replicate 5000 CHR ''x'') \<le> LSTR_LENGTH release_build \<and>
   stderr_out (final_world (ephem_error 2 release_build (Other (replicate 5000 CHR ''x'')) fresh_world))
     = ''Error: '' @ replicate 4088 CHR ''x''"
proof -
  have a: "stopped (ephem_error 2 release_build (Other (replicate 40000 CHR ''x'')) fresh_world)
     = Some (Overrun temp_stringA)"
    by (simp add: numeral_2_eq_2 ephem_error.simps strcpy_def release_build_fields stopped_def)
  have b: "stopped (ephem_log 2 release_build (Other (replicate 40000 CHR ''x'')) fresh_world)
     = Some (Overrun temp_stringD)"
    by (simp add: numeral_2_eq_2 ephem_log.simps strcpy_def release_build_fields stopped_def
          fopen_w_def Let_def setvbuf_IOLBF_def fresh_world_def start_world_def)
  have fit: "fits release_build fresh_world (Other (replicate 5000 CHR ''x''))"
    by (simp add: fits_def release_build_fields)
  have quiet: "DEBUG release_build \<and> latch fresh_world = 0 \<longrightarrow> sink_usable fresh_world"
    by (simp add: release_build_fields)
  from ephem_error_returns [OF example_builds_ok(2) fit quiet, of 0]
  obtain w' where
    w': "ephem_error (Suc (Suc 0)) release_build (Other (replicate 5000 CHR ''x'')) fresh_world = Inr w'"
    and out: "stderr_out w' = stderr_out fresh_world
        @ snprintf_text (FNAME_LENGTH release_build)
            (''Error: '' @ deref fresh_world (Other (replicate 5000 CHR ''x'')) @ ''\<newline>'')"
    by blast
  have c: "stderr_out (final_world (ephem_error 2 release_build (Other (replicate 5000 CHR ''x'')) fresh_world))
     = ''Error: '' @ replicate 4088 CHR ''x''"
    using w' out
    by (simp add: numeral_2_eq_2 final_world_def release_build_fields snprintf_text_def
          fresh_world_def start_world_def)
  show ?thesis
    using a b c by (simp add: release_build_fields)
qed

text \<open>
  C5. While the latch is set, a call of \<^verbatim>\<open>ephem_log\<close> returns at once and changes
  nothing. When the latch is clear, the log is not open and \<^verbatim>\<open>ephem.log\<close> cannot be
  opened, the call does not hang: with a call depth of four it ends the process with
  status 1, having written the two lines of the fatal report to stderr exactly once,
  having called \<^verbatim>\<open>fopen\<close> exactly once, and having written nothing to any file.
\<close>

theorem log_reentry_is_noop_and_open_failure_exits_once:
  "(latch w \<noteq> 0 \<longrightarrow> ephem_log (Suc n) cfg msg w = Inr w) \<and>
   (buffers_ok cfg \<and> latch w = 0 \<and> logfile w = None \<and> \<not> openable w ''ephem.log'' \<and> 4 \<le> n \<longrightarrow>
      (\<exists>w'. ephem_log n cfg msg w = Inl (Exited 1, w') \<and>
         stderr_out w' = stderr_out w
            @ snprintf_text (FNAME_LENGTH cfg)
                (''Error: '' @ fatal_intro cfg (FILE_macro cfg) 102 @ ''\<newline>'')
            @ snprintf_text (FNAME_LENGTH cfg)
                (''Error: Could not open log file to write.\<newline>'') \<and>
         stdout_out w' = stdout_out w \<and>
         logfile w' = None \<and> disk w' = disk w \<and>
         fopen_calls w' = fopen_calls w + 1 \<and> time_calls w' = time_calls w))"
proof (intro conjI impI)
  assume "latch w \<noteq> 0"
  then show "ephem_log (Suc n) cfg msg w = Inr w"
    by (rule ephem_log_latched)
next
  assume a: "buffers_ok cfg \<and> latch w = 0 \<and> logfile w = None \<and> \<not> openable w ''ephem.log'' \<and> 4 \<le> n"
  then obtain k where k: "n = Suc (Suc (Suc (Suc k)))"
    using fuel_4 by blast
  from a show "\<exists>w'. ephem_log n cfg msg w = Inl (Exited 1, w') \<and>
         stderr_out w' = stderr_out w
            @ snprintf_text (FNAME_LENGTH cfg)
                (''Error: '' @ fatal_intro cfg (FILE_macro cfg) 102 @ ''\<newline>'')
            @ snprintf_text (FNAME_LENGTH cfg)
                (''Error: Could not open log file to write.\<newline>'') \<and>
         stdout_out w' = stdout_out w \<and>
         logfile w' = None \<and> disk w' = disk w \<and>
         fopen_calls w' = fopen_calls w + 1 \<and> time_calls w' = time_calls w"
    unfolding k by (intro ephem_log_open_fails) simp_all
qed

theorem log_reentry_is_noop_and_open_failure_exits_once_witness:
  "latch (readonly_world\<lparr>latch := 1\<rparr>) \<noteq> 0 \<and>
   ephem_log 1 debug_build (Other ''nested'') (readonly_world\<lparr>latch := 1\<rparr>)
     = Inr (readonly_world\<lparr>latch := 1\<rparr>) \<and>
   buffers_ok debug_build \<and> latch readonly_world = 0 \<and> logfile readonly_world = None \<and>
   \<not> openable readonly_world ''ephem.log'' \<and>
   stopped (ephem_log 4 debug_build (Other ''hello'') readonly_world) = Some (Exited 1) \<and>
   stderr_out (final_world (ephem_log 4 debug_build (Other ''hello'') readonly_world))
     = ''Error: Fatal Error encountered in src/coreUtils/errorReport.c at line 102:\<newline>''
       @ ''Error: Could not open log file to write.\<newline>'' \<and>
   fopen_calls (final_world (ephem_log 4 debug_build (Other ''hello'') readonly_world)) = 1 \<and>
   disk (final_world (ephem_log 4 debug_build (Other ''hello'') readonly_world)) ''ephem.log'' = None"
proof -
  have pre: "buffers_ok debug_build \<and> latch readonly_world = 0 \<and> logfile readonly_world = None \<and>
      \<not> openable readonly_world ''ephem.log'' \<and> (4::nat) \<le> 4"
    by (simp add: example_builds_ok readonly_world_def start_world_def)
  have nested: "latch (readonly_world\<lparr>latch := 1\<rparr>) \<noteq> 0"
    by simp
  from log_reentry_is_noop_and_open_failure_exits_once
         [where w = "readonly_world\<lparr>latch := 1\<rparr>" and n = 0 and cfg = debug_build
            and msg = "Other ''nested''"]
  have one: "ephem_log 1 debug_build (Other ''nested'') (readonly_world\<lparr>latch := 1\<rparr>)
     = Inr (readonly_world\<lparr>latch := 1\<rparr>)"
    using nested by simp
  from log_reentry_is_noop_and_open_failure_exits_once
         [where w = readonly_world and n = 4 and cfg = debug_build and msg = "Other ''hello''"] pre
  obtain w' where w': "ephem_log 4 debug_build (Other ''hello'') readonly_world = Inl (Exited 1, w')"
    "stderr_out w' = stderr_out readonly_world
            @ snprintf_text (FNAME_LENGTH debug_build)
                (''Error: '' @ fatal_intro debug_build (FILE_macro debug_build) 102 @ ''\<newline>'')
            @ snprintf_text (FNAME_LENGTH debug_build)
                (''Error: Could not open log file to write.\<newline>'')"
    "fopen_calls w' = fopen_calls readonly_world + 1" "disk w' = disk readonly_world"
    by auto
  show ?thesis
    using pre nested one w'
    by (simp add: stopped_def final_world_def debug_build_fields fatal_intro_examples
          snprintf_text_def readonly_world_def start_world_def)
qed

text \<open>
  C6. A message pointer that is the emitter's own destination buffer is not copied (a
  copy of a buffer onto itself would be undefined): the buffer holds the same text after
  the call, the text is formatted and written like any other message, and the call ends
  in the very state in which the call with the same text passed from storage outside the
  facility ends. This holds at top level, with a log that is open or can be opened, for
  \<^verbatim>\<open>ephem_error\<close>, \<^verbatim>\<open>ephem_warning\<close> and \<^verbatim>\<open>ephem_report\<close> with
  \<^verbatim>\<open>temp_stringA\<close>, for \<^verbatim>\<open>ephem_fatal\<close> with \<^verbatim>\<open>temp_stringE\<close> and for
  \<^verbatim>\<open>ephem_log\<close> with \<^verbatim>\<open>temp_stringD\<close>. (The text a buffer holds always fits that
  buffer; the hypotheses say so.)
\<close>

theorem aliased_message_is_kept_and_emitted:
  assumes "buffers_ok cfg"
    and "fits cfg w (Scratch temp_stringA)" and "fits cfg w (Scratch temp_stringE)"
    and "fits cfg w (Scratch temp_stringD)"
    and "latch w = 0" and "sink_usable w" and "3 \<le> n"
  shows
    "(\<exists>w'. ephem_error n cfg (Scratch temp_stringA) w = Inr w' \<and>
        ephem_error n cfg (Other (slots w temp_stringA)) w = Inr w' \<and>
        slots w' temp_stringA = slots w temp_stringA \<and>
        stderr_out w' = stderr_out w
          @ take (FNAME_LENGTH cfg - 1) (''Error: '' @ slots w temp_stringA @ ''\<newline>'') \<and>
        stdout_out w' = stdout_out w \<and>
        (DEBUG cfg \<longrightarrow>
           log_text w' = (if logfile w = None then [] else log_text w)
             @ log_line (stamp w 0)
                 (take (FNAME_LENGTH cfg - 1) (''Error: '' @ slots w temp_stringA)))) \<and>
     (\<exists>w'. ephem_warning n cfg (Scratch temp_stringA) w = Inr w' \<and>
        ephem_warning n cfg (Other (slots w temp_stringA)) w = Inr w' \<and>
        slots w' temp_stringA = slots w temp_stringA \<and>
        stderr_out w' = stderr_out w
          @ take (FNAME_LENGTH cfg - 1) (''Warning: '' @ slots w temp_stringA @ ''\<newline>'') \<and>
        stdout_out w' = stdout_out w \<and>
        (DEBUG cfg \<longrightarrow>
           log_text w' = (if logfile w = None then [] else log_text w)
             @ log_line (stamp w 0)
                 (take (FNAME_LENGTH cfg - 1) (''Warning: '' @ slots w temp_stringA)))) \<and>
     (\<exists>w'. ephem_report n cfg (Scratch temp_stringA) w = Inr w' \<and>
        ephem_report n cfg (Other (slots w temp_stringA)) w = Inr w' \<and>
        slots w' temp_stringA = slots w temp_stringA \<and>
        stdout_out w' = stdout_out w
          @ take (FNAME_LENGTH cfg - 1) (slots w temp_stringA @ ''\<newline>'') \<and>
        stderr_out w' = stderr_out w \<and>
        (DEBUG cfg \<longrightarrow>
           log_text w' = (if logfile w = None then [] else log_text w)
             @ log_line (stamp w 0)
                 (take (FNAME_LENGTH cfg - 1) (''Reporting: '' @ slots w temp_stringA)))) \<and>
     (\<exists>w'. ephem_fatal n cfg fl ln (Scratch temp_stringE) w = Inl (Exited 1, w') \<and>
        ephem_fatal n cfg fl ln (Other (slots w temp_stringE)) w = Inl (Exited 1, w') \<and>
        slots w' temp_stringE = slots w temp_stringE \<and>
        stderr_out w' = stderr_out w
          @ take (FNAME_LENGTH cfg - 1) (''Error: '' @ fatal_intro cfg (deref w fl) ln @ ''\<newline>'')
          @ take (FNAME_LENGTH cfg - 1) (''Error: '' @ slots w temp_stringE @ ''\<newline>'')) \<and>
     (\<exists>w'. ephem_log n cfg (Scratch temp_stringD) w = Inr w' \<and>
        ephem_log n cfg (Other (slots w temp_stringD)) w = Inr w' \<and>
        slots w' = slots w \<and>
        log_text w' = (if logfile w = None then [] else log_text w)
          @ log_line (stamp w 0) (slots w temp_stringD))"
proof -
  from assms(7) obtain k where k: "n = Suc (Suc (Suc k))"
    using fuel_3 by blast
  have sink: "DEBUG cfg \<and> latch w = 0 \<longrightarrow> sink_usable w"
    using assms(6) by simp
  note eq = aliased_call_eq [of cfg w n fl ln]
  have eqA: "ephem_error n cfg (Other (slots w temp_stringA)) w
               = ephem_error n cfg (Scratch temp_stringA) w"
    "ephem_warning n cfg (Other (slots w temp_stringA)) w
               = ephem_warning n cfg (Scratch temp_stringA) w"
    "ephem_report n cfg (Other (slots w temp_stringA)) w
               = ephem_report n cfg (Scratch temp_stringA) w"
    using eq assms(2) by simp_all
  have eqE: "ephem_fatal n cfg fl ln (Other (slots w temp_stringE)) w
               = ephem_fatal n cfg fl ln (Scratch temp_stringE) w"
    using eq assms(3) by simp
  have eqD: "ephem_log n cfg (Other (slots w temp_stringD)) w
               = ephem_log n cfg (Scratch temp_stringD) w"
    using eq assms(4) by simp
  from ephem_error_returns [OF assms(1,2) sink, of "Suc k"]
  have e: "\<exists>w'. ephem_error n cfg (Scratch temp_stringA) w = Inr w' \<and>
        ephem_error n cfg (Other (slots w temp_stringA)) w = Inr w' \<and>
        slots w' temp_stringA = slots w temp_stringA \<and>
        stderr_out w' = stderr_out w
          @ take (FNAME_LENGTH cfg - 1) (''Error: '' @ slots w temp_stringA @ ''\<newline>'') \<and>
        stdout_out w' = stdout_out w \<and>
        (DEBUG cfg \<longrightarrow>
           log_text w' = (if logfile w = None then [] else log_text w)
             @ log_line (stamp w 0)
                 (take (FNAME_LENGTH cfg - 1) (''Error: '' @ slots w temp_stringA)))"
    unfolding eqA unfolding k snprintf_text_def using assms(5) by auto
  from ephem_warning_returns [OF assms(1,2) sink, of "Suc k"]
  have wn: "\<exists>w'. ephem_warning n cfg (Scratch temp_stringA) w = Inr w' \<and>
        ephem_warning n cfg (Other (slots w temp_stringA)) w = Inr w' \<and>
        slots w' temp_stringA = slots w temp_stringA \<and>
        stderr_out w' = stderr_out w
          @ take (FNAME_LENGTH cfg - 1) (''Warning: '' @ slots w temp_stringA @ ''\<newline>'') \<and>
        stdout_out w' = stdout_out w \<and>
        (DEBUG cfg \<longrightarrow>
           log_text w' = (if logfile w = None then [] else log_text w)
             @ log_line (stamp w 0)
                 (take (FNAME_LENGTH cfg - 1) (''Warning: '' @ slots w temp_stringA)))"
    unfolding eqA unfolding k snprintf_text_def using assms(5) by auto
  from ephem_report_returns [OF assms(1,2) sink, of "Suc k"]
  have r: "\<exists>w'. ephem_report n cfg (Scratch temp_stringA) w = Inr w' \<and>
        ephem_report n cfg (Other (slots w temp_stringA)) w = Inr w' \<and>
        slots w' temp_stringA = slots w temp_stringA \<and>
        stdout_out w' = stdout_out w
          @ take (FNAME_LENGTH cfg - 1) (slots w temp_stringA @ ''\<newline>'') \<and>
        stderr_out w' = stderr_out w \<and>
        (DEBUG cfg \<longrightarrow>
           log_text w' = (if logfile w = None then [] else log_text w)
             @ log_line (stamp w 0)
                 (take (FNAME_LENGTH cfg - 1) (''Reporting: '' @ slots w temp_stringA)))"
    unfolding eqA unfolding k snprintf_text_def using assms(5) by auto
  have f: "\<exists>w'. ephem_fatal n cfg fl ln (Scratch temp_stringE) w = Inl (Exited 1, w') \<and>
        ephem_fatal n cfg fl ln (Other (slots w temp_stringE)) w = Inl (Exited 1, w') \<and>
        slots w' temp_stringE = slots w temp_stringE \<and>
        stderr_out w' = stderr_out w
          @ take (FNAME_LENGTH cfg - 1) (''Error: '' @ fatal_intro cfg (deref w fl) ln @ ''\<newline>'')
          @ take (FNAME_LENGTH cfg - 1) (''Error: '' @ slots w temp_stringE @ ''\<newline>'')"
  proof (cases "DEBUG cfg")
    case True
    from ephem_fatal_logged [OF assms(1,3) True assms(5,6), of k fl ln]
    show ?thesis
      unfolding eqE unfolding k snprintf_text_def by (auto simp add: set_slot_same)
  next
    case False
    then have q: "\<not> DEBUG cfg \<or> latch w \<noteq> 0" by simp
    from ephem_fatal_quiet [OF assms(1,3) q, of k fl ln]
    show ?thesis
      unfolding eqE unfolding k snprintf_text_def by (auto simp add: set_slot_same)
  qed
  from ephem_log_writes [OF assms(5,6,4), of "Suc (Suc k)"]
  have l: "\<exists>w'. ephem_log n cfg (Scratch temp_stringD) w = Inr w' \<and>
        ephem_log n cfg (Other (slots w temp_stringD)) w = Inr w' \<and>
        slots w' = slots w \<and>
        log_text w' = (if logfile w = None then [] else log_text w)
          @ log_line (stamp w 0) (slots w temp_stringD)"
    unfolding eqD unfolding k by auto
  from e wn r f l show ?thesis by (intro conjI)
qed

theorem aliased_message_is_kept_and_emitted_witness:
  "buffers_ok debug_build \<and>
   fits debug_build
     (set_slot temp_stringA ''disk full'' (set_slot temp_stringD ''note''
        (set_slot temp_stringE ''boom'' fresh_world))) (Scratch temp_stringA) \<and>
   fits debug_build
     (set_slot temp_stringA ''disk full'' (set_slot temp_stringD ''note''
        (set_slot temp_stringE ''boom'' fresh_world))) (Scratch temp_stringE) \<and>
   fits debug_build
     (set_slot temp_stringA ''disk full'' (set_slot temp_stringD ''note''
        (set_slot temp_stringE ''boom'' fresh_world))) (Scratch temp_stringD) \<and>
   ephem_error 3 debug_build (Scratch temp_stringA)
     (set_slot temp_stringA ''disk full'' (set_slot temp_stringD ''note''
        (set_slot temp_stringE ''boom'' fresh_world)))
   = ephem_error 3 debug_build (Other ''disk full'')
     (set_slot temp_stringA ''disk full'' (set_slot temp_stringD ''note''
        (set_slot temp_stringE ''boom'' fresh_world))) \<and>
   stopped (ephem_error 3 debug_build (Scratch temp_stringA)
     (set_slot temp_stringA ''disk full'' (set_slot temp_stringD ''note''
        (set_slot temp_stringE ''boom'' fresh_world)))) = None \<and>
   stderr_out (final_world (ephem_error 3 debug_build (Scratch temp_stringA)
     (set_slot temp_stringA ''disk full'' (set_slot temp_stringD ''note''
        (set_slot temp_stringE ''boom'' fresh_world)))))
   = ''Error: disk full\<newline>'' \<and>
   slots (final_world (ephem_error 3 debug_build (Scratch temp_stringA)
     (set_slot temp_stringA ''disk full'' (set_slot temp_stringD ''note''
        (set_slot temp_stringE ''boom'' fresh_world))))) temp_stringA
   = ''disk full'' \<and>
   log_text (final_world (ephem_error 3 debug_build (Scratch temp_stringA)
     (set_slot temp_stringA ''disk full'' (set_slot temp_stringD ''note''
        (set_slot temp_stringE ''boom'' fresh_world)))))
   = ''[t0] Error: disk full\<newline>'' \<and>
   stderr_out (final_world (ephem_warning 3 debug_build (Scratch temp_stringA)
     (set_slot temp_stringA ''disk full'' (set_slot temp_stringD ''note''
        (set_slot temp_stringE ''boom'' fresh_world)))))
   = ''Warning: disk full\<newline>'' \<and>
   stdout_out (final_world (ephem_report 3 debug_build (Scratch temp_stringA)
     (set_slot temp_stringA ''disk full'' (set_slot temp_stringD ''note''
        (set_slot temp_stringE ''boom'' fresh_world)))))
   = ''disk full\<newline>'' \<and>
   stopped (ephem_fatal 3 debug_build (Other ''main.c'') 42 (Scratch temp_stringE)
     (set_slot temp_stringA ''disk full'' (set_slot temp_stringD ''note''
        (set_slot temp_stringE ''boom'' fresh_world)))) = Some (Exited 1) \<and>
   stderr_out (final_world (ephem_fatal 3 debug_build (Other ''main.c'') 42 (Scratch temp_stringE)
     (set_slot temp_stringA ''disk full'' (set_slot temp_stringD ''note''
        (set_slot temp_stringE ''boom'' fresh_world)))))
   = ''Error: Fatal Error encountered in main.c at line 42:\<newline>Error: boom\<newline>'' \<and>
   slots (final_world (ephem_log 3 debug_build (Scratch temp_stringD)
     (set_slot temp_stringA ''disk full'' (set_slot temp_stringD ''note''
        (set_slot temp_stringE ''boom'' fresh_world))))) temp_stringD
   = ''note'' \<and>
   log_text (final_world (ephem_log 3 debug_build (Scratch temp_stringD)
     (set_slot temp_stringA ''disk full'' (set_slot temp_stringD ''note''
        (set_slot temp_stringE ''boom'' fresh_world)))))
   = ''[t0] note\<newline>''"
proof -
  define w where "w = set_slot temp_stringA ''disk full'' (set_slot temp_stringD ''note''
        (set_slot temp_stringE ''boom'' fresh_world))"
  have sl: "slots w temp_stringA = ''disk full''" "slots w temp_stringD = ''note''"
    "slots w temp_stringE = ''boom''"
    by (simp_all add: w_def)
  have st: "latch w = 0" "logfile w = None" "stderr_out w = []" "stdout_out w = []"
    "stamp w 0 = ''t0''" "sink_usable w"
    by (simp_all add: w_def fresh_world_def start_world_def stamp_def clock_examples
          sink_usable_def)
  have pre: "buffers_ok debug_build" "fits debug_build w (Scratch temp_stringA)"
    "fits debug_build w (Scratch temp_stringE)" "fits debug_build w (Scratch temp_stringD)"
    "latch w = 0" "sink_usable w" "(3::nat) \<le> 3"
    by (simp_all add: example_builds_ok fits_def sl st debug_build_fields)
  note all = aliased_message_is_kept_and_emitted [OF pre, of "Other ''main.c''" 42]
  from all [THEN conjunct1] obtain w1 where
    w1: "ephem_error 3 debug_build (Scratch temp_stringA) w = Inr w1 \<and>
        ephem_error 3 debug_build (Other (slots w temp_stringA)) w = Inr w1 \<and>
        slots w1 temp_stringA = slots w temp_stringA \<and>
        stderr_out w1 = stderr_out w
          @ take (FNAME_LENGTH debug_build - 1) (''Error: '' @ slots w temp_stringA @ ''\<newline>'') \<and>
        stdout_out w1 = stdout_out w \<and>
        (DEBUG debug_build \<longrightarrow>
           log_text w1 = (if logfile w = None then [] else log_text w)
             @ log_line (stamp w 0)
                 (take (FNAME_LENGTH debug_build - 1) (''Error: '' @ slots w temp_stringA)))" ..
  from all [THEN conjunct2, THEN conjunct1] obtain w2 where
    w2: "ephem_warning 3 debug_build (Scratch temp_stringA) w = Inr w2 \<and>
        ephem_warning 3 debug_build (Other (slots w temp_stringA)) w = Inr w2 \<and>
        slots w2 temp_stringA = slots w temp_stringA \<and>
        stderr_out w2 = stderr_out w
          @ take (FNAME_LENGTH debug_build - 1) (''Warning: '' @ slots w temp_stringA @ ''\<newline>'') \<and>
        stdout_out w2 = stdout_out w \<and>
        (DEBUG debug_build \<longrightarrow>
           log_text w2 = (if logfile w = None then [] else log_text w)
             @ log_line (stamp w 0)
                 (take (FNAME_LENGTH debug_build - 1) (''Warning: '' @ slots w temp_stringA)))" ..
  from all [THEN conjunct2, THEN conjunct2, THEN conjunct1] obtain w3 where
    w3: "ephem_report 3 debug_build (Scratch temp_stringA) w = Inr w3 \<and>
        ephem_report 3 debug_build (Other (slots w temp_stringA)) w = Inr w3 \<and>
        slots w3 temp_stringA = slots w temp_stringA \<and>
        stdout_out w3 = stdout_out w
          @ take (FNAME_LENGTH debug_build - 1) (slots w temp_stringA @ ''\<newline>'') \<and>
        stderr_out w3 = stderr_out w \<and>
        (DEBUG debug_build \<longrightarrow>
           log_text w3 = (if logfile w = None then [] else log_text w)
             @ log_line (stamp w 0)
                 (take (FNAME_LENGTH debug_build - 1) (''Reporting: '' @ slots w temp_stringA)))" ..
  from all [THEN conjunct2, THEN conjunct2, THEN conjunct2, THEN conjunct1] obtain w4 where
    w4: "ephem_fatal 3 debug_build (Other ''main.c'') 42 (Scratch temp_stringE) w = Inl (Exited 1, w4) \<and>
        ephem_fatal 3 debug_build (Other ''main.c'') 42 (Other (slots w temp_stringE)) w
          = Inl (Exited 1, w4) \<and>
        slots w4 temp_stringE = slots w temp_stringE \<and>
        stderr_out w4 = stderr_out w
          @ take (FNAME_LENGTH debug_build - 1)
              (''Error: '' @ fatal_intro debug_build (deref w (Other ''main.c'')) 42 @ ''\<newline>'')
          @ take (FNAME_LENGTH debug_build - 1) (''Error: '' @ slots w temp_stringE @ ''\<newline>'')" ..
  from all [THEN conjunct2, THEN conjunct2, THEN conjunct2, THEN conjunct2] obtain w5 where
    w5: "ephem_log 3 debug_build (Scratch temp_stringD) w = Inr w5 \<and>
        ephem_log 3 debug_build (Other (slots w temp_stringD)) w = Inr w5 \<and>
        slots w5 = slots w \<and>
        log_text w5 = (if logfile w = None then [] else log_text w)
          @ log_line (stamp w 0) (slots w temp_stringD)" ..
  have r1: "ephem_error 3 debug_build (Scratch temp_stringA) w = Inr w1"
    "ephem_error 3 debug_build (Other ''disk full'') w = Inr w1"
    "slots w1 temp_stringA = ''disk full''"
    "stderr_out w1 = ''Error: disk full\<newline>''"
    "log_text w1 = ''[t0] Error: disk full\<newline>''"
    using w1 by (simp_all add: sl st debug_build_fields log_line_def)
  have r2: "ephem_warning 3 debug_build (Scratch temp_stringA) w = Inr w2"
    "stderr_out w2 = ''Warning: disk full\<newline>''"
    using w2 by (simp_all add: sl st debug_build_fields)
  have r3: "ephem_report 3 debug_build (Scratch temp_stringA) w = Inr w3"
    "stdout_out w3 = ''disk full\<newline>''"
    using w3 by (simp_all add: sl st debug_build_fields)
  have r4: "ephem_fatal 3 debug_build (Other ''main.c'') 42 (Scratch temp_stringE) w
         = Inl (Exited 1, w4)"
    "stderr_out w4
       = ''Error: Fatal Error encountered in main.c at line 42:\<newline>Error: boom\<newline>''"
    using w4 by (simp_all add: sl st debug_build_fields fatal_intro_examples)
  have r5: "ephem_log 3 debug_build (Scratch temp_stringD) w = Inr w5"
    "slots w5 temp_stringD = ''note''" "log_text w5 = ''[t0] note\<newline>''"
    using w5 by (simp_all add: sl st log_line_def)
  show ?thesis
    unfolding w_def [symmetric]
    using pre(1-4)
    by (simp add: r1 r2 r3 r4 r5 stopped_def final_world_def)
qed

text \<open>
  C7, as the code has it. Let the message be so short that the longest line formatted
  from it, \<open>Reporting: \<close> followed by the message, fits the formatting bound
  \<open>FNAME_LENGTH\<close> with its terminator. Then a top-level call (latch clear; in debug mode
  with a log that is open or can be opened) returns, and
  \<^item> \<^verbatim>\<open>ephem_error\<close> appends exactly \<open>Error: \<close>, the message and a newline to stderr,
  \<^item> \<^verbatim>\<open>ephem_warning\<close> appends exactly \<open>Warning: \<close>, the message and a newline to stderr,
  \<^item> \<^verbatim>\<open>ephem_report\<close> appends exactly the message and a newline to stdout,
  and none of them writes to the other stream. In debug mode each hands the log one line,
  the time stamp followed by the message with the prefix \<open>Error: \<close>, \<open>Warning: \<close> or
  \<open>Reporting: \<close>; without debug mode the log stream and the files are left as they were.
\<close>

theorem emitters_write_prefixed_message:
  assumes "buffers_ok cfg" and "length ''Reporting: '' + length (deref w msg) < FNAME_LENGTH cfg"
    and "latch w = 0" and "DEBUG cfg \<longrightarrow> sink_usable w" and "2 \<le> n"
  shows
    "(\<exists>w'. ephem_error n cfg msg w = Inr w' \<and>
        stderr_out w' = stderr_out w @ ''Error: '' @ deref w msg @ ''\<newline>'' \<and>
        stdout_out w' = stdout_out w \<and>
        (if DEBUG cfg
         then log_text w' = (if logfile w = None then [] else log_text w)
                @ log_line (stamp w 0) (''Error: '' @ deref w msg)
         else logfile w' = logfile w \<and> disk w' = disk w)) \<and>
     (\<exists>w'. ephem_warning n cfg msg w = Inr w' \<and>
        stderr_out w' = stderr_out w @ ''Warning: '' @ deref w msg @ ''\<newline>'' \<and>
        stdout_out w' = stdout_out w \<and>
        (if DEBUG cfg
         then log_text w' = (if logfile w = None then [] else log_text w)
                @ log_line (stamp w 0) (''Warning: '' @ deref w msg)
         else logfile w' = logfile w \<and> disk w' = disk w)) \<and>
     (\<exists>w'. ephem_report n cfg msg w = Inr w' \<and>
        stdout_out w' = stdout_out w @ deref w msg @ ''\<newline>'' \<and>
        stderr_out w' = stderr_out w \<and>
        (if DEBUG cfg
         then log_text w' = (if logfile w = None then [] else log_text w)
                @ log_line (stamp w 0) (''Reporting: '' @ deref w msg)
         else logfile w' = logfile w \<and> disk w' = disk w))"
proof -
  from assms(5) obtain k where k: "n = Suc (Suc k)"
    using fuel_2 by blast
  have fit: "fits cfg w msg"
    using assms(1,2) by (simp add: fits_def buffers_ok_def)
  have sink: "DEBUG cfg \<and> latch w = 0 \<longrightarrow> sink_usable w"
    using assms(4) by simp
  have whole:
    "snprintf_text (FNAME_LENGTH cfg) (''Error: '' @ deref w msg @ ''\<newline>'')
       = ''Error: '' @ deref w msg @ ''\<newline>''"
    "snprintf_text (FNAME_LENGTH cfg) (''Error: '' @ deref w msg) = ''Error: '' @ deref w msg"
    "snprintf_text (FNAME_LENGTH cfg) (''Warning: '' @ deref w msg @ ''\<newline>'')
       = ''Warning: '' @ deref w msg @ ''\<newline>''"
    "snprintf_text (FNAME_LENGTH cfg) (''Warning: '' @ deref w msg) = ''Warning: '' @ deref w msg"
    "snprintf_text (FNAME_LENGTH cfg) (deref w msg @ ''\<newline>'') = deref w msg @ ''\<newline>''"
    "snprintf_text (FNAME_LENGTH cfg) (''Reporting: '' @ deref w msg)
       = ''Reporting: '' @ deref w msg"
    using assms(2) by (simp_all add: snprintf_text_whole)
  from ephem_error_returns [OF assms(1) fit sink, of k]
  have e: "\<exists>w'. ephem_error n cfg msg w = Inr w' \<and>
        stderr_out w' = stderr_out w @ ''Error: '' @ deref w msg @ ''\<newline>'' \<and>
        stdout_out w' = stdout_out w \<and>
        (if DEBUG cfg
         then log_text w' = (if logfile w = None then [] else log_text w)
                @ log_line (stamp w 0) (''Error: '' @ deref w msg)
         else logfile w' = logfile w \<and> disk w' = disk w)"
    unfolding k whole using assms(3) by auto
  from ephem_warning_returns [OF assms(1) fit sink, of k]
  have wn: "\<exists>w'. ephem_warning n cfg msg w = Inr w' \<and>
        stderr_out w' = stderr_out w @ ''Warning: '' @ deref w msg @ ''\<newline>'' \<and>
        stdout_out w' = stdout_out w \<and>
        (if DEBUG cfg
         then log_text w' = (if logfile w = None then [] else log_text w)
                @ log_line (stamp w 0) (''Warning: '' @ deref w msg)
         else logfile w' = logfile w \<and> disk w' = disk w)"
    unfolding k whole using assms(3) by auto
  from ephem_report_returns [OF assms(1) fit sink, of k]
  have r: "\<exists>w'. ephem_report n cfg msg w = Inr w' \<and>
        stdout_out w' = stdout_out w @ deref w msg @ ''\<newline>'' \<and>
        stderr_out w' = stderr_out w \<and>
        (if DEBUG cfg
         then log_text w' = (if logfile w = None then [] else log_text w)
                @ log_line (stamp w 0) (''Reporting: '' @ deref w msg)
         else logfile w' = logfile w \<and> disk w' = disk w)"
    unfolding k whole using assms(3) by auto
  from e wn r show ?thesis by (intro conjI)
qed

theorem emitters_write_prefixed_message_witness:
  "buffers_ok debug_build \<and>
   length ''Reporting: '' + length (deref fresh_world (Other ''sunrise'')) < FNAME_LENGTH debug_build \<and>
   length ''Reporting: '' + length (deref fresh_world (Other ''bad ephemeris epoch''))
     < FNAME_LENGTH debug_build \<and>
   latch fresh_world = 0 \<and> sink_usable fresh_world \<and>
   stopped (ephem_report 2 debug_build (Other ''sunrise'') fresh_world) = None \<and>
   stdout_out (final_world (ephem_report 2 debug_build (Other ''sunrise'') fresh_world))
     = ''sunrise\<newline>'' \<and>
   log_text (final_world (ephem_report 2 debug_build (Other ''sunrise'') fresh_world))
     = ''[t0] Reporting: sunrise\<newline>'' \<and>
   stopped (ephem_error 2 debug_build (Other ''bad ephemeris epoch'') fresh_world) = None \<and>
   stderr_out (final_world (ephem_error 2 debug_build (Other ''bad ephemeris epoch'') fresh_world))
     = ''Error: bad ephemeris epoch\<newline>'' \<and>
   log_text (final_world (ephem_error 2 debug_build (Other ''bad ephemeris epoch'') fresh_world))
     = ''[t0] Error: bad ephemeris epoch\<newline>''"
proof -
  have st: "latch fresh_world = 0" "logfile fresh_world = None" "stderr_out fresh_world = []"
    "stdout_out fresh_world = []" "stamp fresh_world 0 = ''t0''" "sink_usable fresh_world"
    by (simp_all add: fresh_world_def start_world_def stamp_def clock_examples sink_usable_def)
  have pre1: "buffers_ok debug_build"
    "length ''Reporting: '' + length (deref fresh_world (Other ''sunrise'')) < FNAME_LENGTH debug_build"
    "latch fresh_world = 0" "DEBUG debug_build \<longrightarrow> sink_usable fresh_world" "(2::nat) \<le> 2"
    by (simp_all add: example_builds_ok debug_build_fields st)
  have pre2:
    "length ''Reporting: '' + length (deref fresh_world (Other ''bad ephemeris epoch''))
       < FNAME_LENGTH debug_build"
    by (simp add: debug_build_fields)
  from emitters_write_prefixed_message [OF pre1]
  obtain w1 where w1: "ephem_report 2 debug_build (Other ''sunrise'') fresh_world = Inr w1"
    "stdout_out w1 = stdout_out fresh_world @ deref fresh_world (Other ''sunrise'') @ ''\<newline>''"
    "log_text w1 = (if logfile fresh_world = None then [] else log_text fresh_world)
                @ log_line (stamp fresh_world 0) (''Reporting: '' @ deref fresh_world (Other ''sunrise''))"
    by (auto simp add: debug_build_fields)
  from emitters_write_prefixed_message [OF pre1(1) pre2 pre1(3-5)]
  obtain w2 where w2:
    "ephem_error 2 debug_build (Other ''bad ephemeris epoch'') fresh_world = Inr w2"
    "stderr_out w2 = stderr_out fresh_world @ ''Error: ''
        @ deref fresh_world (Other ''bad ephemeris epoch'') @ ''\<newline>''"
    "log_text w2 = (if logfile fresh_world = None then [] else log_text fresh_world)
                @ log_line (stamp fresh_world 0)
                    (''Error: '' @ deref fresh_world (Other ''bad ephemeris epoch''))"
    by (auto simp add: debug_build_fields)
  show ?thesis
    using pre1(1,2) pre2 st(1,6) w1 w2
    by (simp add: stopped_def final_world_def st log_line_def)
qed

text \<open>
  C7, as the spec has it, fails near the bound. A message of 4090 characters is within
  both capacities (4096 and 32768), yet \<^verbatim>\<open>ephem_error\<close> writes \<open>Error: \<close> and only
  4088 of its characters, with no newline; a message of 4095 characters comes out of
  \<^verbatim>\<open>ephem_report\<close> without its newline.
\<close>

theorem message_within_capacity_is_cut:
  "length (replicate 4090 CHR ''x'') < FNAME_LENGTH release_build \<and>
   length (replicate 4090 CHR ''x'') < LSTR_LENGTH release_build \<and>
   stderr_out (final_world (ephem_error 2 release_build (Other (replicate 4090 CHR ''x'')) fresh_world))
     = ''Error: '' @ replicate 4088 CHR ''x'' \<and>
   stderr_out (final_world (ephem_error 2 release_build (Other (replicate 4090 CHR ''x'')) fresh_world))
     \<noteq> ''Error: '' @ replicate 4090 CHR ''x'' @ ''\<newline>'' \<and>
   length (replicate 4095 CHR ''x'') < FNAME_LENGTH release_build \<and>
   stdout_out (final_world (ephem_report 2 release_build (Other (replicate 4095 CHR ''x'')) fresh_world))
     = replicate 4095 CHR ''x'' \<and>
   stdout_out (final_world (ephem_report 2 release_build (Other (replicate 4095 CHR ''x'')) fresh_world))
     \<noteq> replicate 4095 CHR ''x'' @ ''\<newline>''"
proof -
  have quiet: "DEBUG release_build \<and> latch fresh_world = 0 \<longrightarrow> sink_usable fresh_world"
    by (simp add: release_build_fields)
  have fit1: "fits release_build fresh_world (Other (replicate 4090 CHR ''x''))"
    and fit2: "fits release_build fresh_world (Other (replicate 4095 CHR ''x''))"
    by (simp_all add: fits_def release_build_fields)
  from ephem_error_returns [OF example_builds_ok(2) fit1 quiet, of 0]
  obtain w1 where
    w1: "ephem_error (Suc (Suc 0)) release_build (Other (replicate 4090 CHR ''x'')) fresh_world = Inr w1"
    and out1: "stderr_out w1 = stderr_out fresh_world
        @ snprintf_text (FNAME_LENGTH release_build)
            (''Error: '' @ deref fresh_world (Other (replicate 4090 CHR ''x'')) @ ''\<newline>'')"
    by blast
  from ephem_report_returns [OF example_builds_ok(2) fit2 quiet, of 0]
  obtain w2 where
    w2: "ephem_report (Suc (Suc 0)) release_build (Other (replicate 4095 CHR ''x'')) fresh_world = Inr w2"
    and out2: "stdout_out w2 = stdout_out fresh_world
        @ snprintf_text (FNAME_LENGTH release_build)
            (deref fresh_world (Other (replicate 4095 CHR ''x'')) @ ''\<newline>'')"
    by blast
  have a: "stderr_out (final_world (ephem_error 2 release_build (Other (replicate 4090 CHR ''x'')) fresh_world))
     = ''Error: '' @ replicate 4088 CHR ''x''"
    using w1 out1
    by (simp add: numeral_2_eq_2 final_world_def release_build_fields snprintf_text_def
          fresh_world_def start_world_def)
  have b: "stdout_out (final_world (ephem_report 2 release_build (Other (replicate 4095 CHR ''x'')) fresh_world))
     = replicate 4095 CHR ''x''"
    using w2 out2
    by (simp add: numeral_2_eq_2 final_world_def release_build_fields snprintf_text_def
          fresh_world_def start_world_def)
  have la: "length (''Error: '' @ replicate 4088 CHR ''x'')
              \<noteq> length (''Error: '' @ replicate 4090 CHR ''x'' @ ''\<newline>'')"
    by simp
  have lb: "length (replicate 4095 CHR ''x'') \<noteq> length (replicate 4095 CHR ''x'' @ ''\<newline>'')"
    by simp
  have na: "''Error: '' @ replicate 4088 CHR ''x'' \<noteq> ''Error: '' @ replicate 4090 CHR ''x'' @ ''\<newline>''"
    using la by (rule contrapos_nn) (erule arg_cong)
  have nb: "replicate 4095 CHR ''x'' \<noteq> replicate 4095 CHR ''x'' @ ''\<newline>''"
    using lb by (rule contrapos_nn) (erule arg_cong)
  show ?thesis
    unfolding a b using na nb by (simp add: release_build_fields)
qed

text \<open>
  C8. \<^verbatim>\<open>dcffread\<close> never hands a partial read back: whenever it returns, \<^verbatim>\<open>fread\<close>
  delivered all \<open>nmemb\<close> elements, the bytes stored are the first \<open>nmemb * sz\<close> bytes
  of the source and nothing was reported. When the source holds fewer than \<open>nmemb\<close>
  complete elements of \<open>sz\<close> bytes, the call is a call of \<^verbatim>\<open>ephem_fatal\<close> with
  \<^verbatim>\<open>__FILE__\<close>, line 114 and the fixed message \<open>file read fail\<close>, and it ends the
  process with status 1; at top level (in debug mode with a usable log) the two lines on
  stderr are the location line and \<open>Error: file read fail\<close>.
\<close>

theorem short_read_is_fatal:
  "(\<forall>buf src' w'. dcffread n cfg sz nmemb src w = Inr (buf, src', w') \<longrightarrow>
      fst (fread sz nmemb src) = nmemb \<and> buf = take (nmemb * sz) src \<and>
      length buf = nmemb * sz \<and> w' = w) \<and>
   (0 < sz \<and> length src div sz < nmemb \<and> buffers_ok cfg \<and> 7 \<le> n \<longrightarrow>
      (\<exists>w'. dcffread n cfg sz nmemb src w = Inl (Exited 1, w') \<and>
            ephem_fatal (n - 1) cfg (Other (FILE_macro cfg)) 114 (Other ''file read fail'') w
              = Inl (Exited 1, w') \<and>
            ((DEBUG cfg \<and> latch w = 0 \<longrightarrow> sink_usable w) \<longrightarrow>
               stderr_out w' = stderr_out w
                 @ snprintf_text (FNAME_LENGTH cfg)
                     (''Error: '' @ fatal_intro cfg (FILE_macro cfg) 114 @ ''\<newline>'')
                 @ snprintf_text (FNAME_LENGTH cfg) ''Error: file read fail\<newline>'')))"
proof (intro conjI allI impI)
  fix buf src' w'
  assume r: "dcffread n cfg sz nmemb src w = Inr (buf, src', w')"
  then obtain k where k: "n = Suc k"
    by (cases n) (simp_all add: dcffread.simps)
  have full: "fst (fread sz nmemb src) = nmemb"
  proof (rule ccontr)
    assume "fst (fread sz nmemb src) \<noteq> nmemb"
    with r k have "\<exists>w1. ephem_fatal k cfg (Other (FILE_macro cfg)) 114
                         (Other ''file read fail'') w = Inr w1"
      by (auto simp add: dcffread.simps split: prod.splits sum.splits)
    then show False
      by (simp add: ephem_fatal_never_returns)
  qed
  with r k have bw: "buf = fst (snd (fread sz nmemb src))" "w' = w"
    by (auto simp add: dcffread.simps split: prod.splits)
  show "fst (fread sz nmemb src) = nmemb"
    by (rule full)
  show b: "buf = take (nmemb * sz) src"
    using bw(1) full by (auto simp add: fread_def split: if_splits)
  show "w' = w"
    by (rule bw(2))
  have "nmemb * sz \<le> length src"
  proof (cases "sz = 0 \<or> nmemb = 0")
    case True
    with full show ?thesis by (auto simp add: fread_def)
  next
    case False
    with full have "nmemb \<le> length src div sz"
      by (simp add: fread_def min_def split: if_splits)
    with False show ?thesis
      by (simp add: less_eq_div_iff_mult_less_eq)
  qed
  with b show "length buf = nmemb * sz"
    by simp
next
  assume a: "0 < sz \<and> length src div sz < nmemb \<and> buffers_ok cfg \<and> 7 \<le> n"
  then obtain k where k: "n = Suc (Suc (Suc (Suc (Suc (Suc (Suc k))))))"
    using fuel_7 by blast
  from a have short: "fst (fread sz nmemb src) \<noteq> nmemb"
    by (simp add: short_read_count)
  from a have ok: "buffers_ok cfg" by simp
  have fit: "fits cfg w (Other ''file read fail'')"
    using ok by (simp add: fits_def buffers_ok_def)
  from ephem_fatal_exits [OF ok fit, of k "Other (FILE_macro cfg)" 114]
  obtain w' where w': "ephem_fatal (Suc (Suc (Suc (Suc (Suc (Suc k)))))) cfg
        (Other (FILE_macro cfg)) 114 (Other ''file read fail'') w = Inl (Exited 1, w')"
    by blast
  have d: "dcffread n cfg sz nmemb src w = Inl (Exited 1, w')"
    using short w' unfolding k
    by (auto simp add: dcffread.simps split: prod.splits)
  have out: "stderr_out w' = stderr_out w
                 @ snprintf_text (FNAME_LENGTH cfg)
                     (''Error: '' @ fatal_intro cfg (FILE_macro cfg) 114 @ ''\<newline>'')
                 @ snprintf_text (FNAME_LENGTH cfg) ''Error: file read fail\<newline>''"
    if s: "DEBUG cfg \<and> latch w = 0 \<longrightarrow> sink_usable w"
  proof (cases "DEBUG cfg \<and> latch w = 0")
    case True
    with s have u: "sink_usable w" by simp
    from True have dl: "DEBUG cfg" "latch w = 0" by simp_all
    from ephem_fatal_logged [OF ok fit dl u, of "Suc (Suc (Suc k))" "Other (FILE_macro cfg)" 114]
    show ?thesis
      using w' by auto
  next
    case False
    then have q: "\<not> DEBUG cfg \<or> latch w \<noteq> 0" by simp
    from ephem_fatal_quiet [OF ok fit q, of "Suc (Suc (Suc k))" "Other (FILE_macro cfg)" 114]
    show ?thesis
      using w' by auto
  qed
  show "\<exists>w'. dcffread n cfg sz nmemb src w = Inl (Exited 1, w') \<and>
            ephem_fatal (n - 1) cfg (Other (FILE_macro cfg)) 114 (Other ''file read fail'') w
              = Inl (Exited 1, w') \<and>
            ((DEBUG cfg \<and> latch w = 0 \<longrightarrow> sink_usable w) \<longrightarrow>
               stderr_out w' = stderr_out w
                 @ snprintf_text (FNAME_LENGTH cfg)
                     (''Error: '' @ fatal_intro cfg (FILE_macro cfg) 114 @ ''\<newline>'')
                 @ snprintf_text (FNAME_LENGTH cfg) ''Error: file read fail\<newline>'')"
    apply (rule exI [of _ w'])
    using d w' out unfolding k
    apply simp
    done
qed

theorem short_read_is_fatal_witness:
  "(0::nat) < 4 \<and> length (replicate 30 (0::byte)) div 4 < (10::nat) \<and>
   buffers_ok release_build \<and>
   (case dcffread 7 release_build 4 10 (replicate 30 0) fresh_world of
      Inl (e, w') \<Rightarrow>
        e = Exited 1 \<and>
        stderr_out w'
          = ''Error: Fatal Error encountered in src/coreUtils/errorReport.c at line 114:\<newline>''
            @ ''Error: file read fail\<newline>''
    | Inr r \<Rightarrow> False) \<and>
   dcffread 7 release_build 4 10 (replicate 40 0) fresh_world
     = Inr (replicate 40 0, [], fresh_world)"
proof -
  have pre: "(0::nat) < 4 \<and> length (replicate 30 (0::byte)) div 4 < (10::nat) \<and>
      buffers_ok release_build \<and> (7::nat) \<le> 7"
    by (simp add: example_builds_ok)
  have top: "DEBUG release_build \<and> latch fresh_world = 0 \<longrightarrow> sink_usable fresh_world"
    by (simp add: release_build_fields)
  have "\<exists>w'. dcffread 7 release_build 4 10 (replicate 30 0) fresh_world = Inl (Exited 1, w') \<and>
            ephem_fatal (7 - 1) release_build (Other (FILE_macro release_build)) 114
              (Other ''file read fail'') fresh_world = Inl (Exited 1, w') \<and>
            ((DEBUG release_build \<and> latch fresh_world = 0 \<longrightarrow> sink_usable fresh_world) \<longrightarrow>
               stderr_out w' = stderr_out fresh_world
                 @ snprintf_text (FNAME_LENGTH release_build)
                     (''Error: '' @ fatal_intro release_build (FILE_macro release_build) 114 @ ''\<newline>'')
                 @ snprintf_text (FNAME_LENGTH release_build) ''Error: file read fail\<newline>'')"
    using short_read_is_fatal
         [where n = 7 and cfg = release_build and sz = 4 and nmemb = 10
            and src = "replicate 30 0" and w = fresh_world, THEN conjunct2, rule_format, OF pre] .
  then obtain w' where w': "dcffread 7 release_build 4 10 (replicate 30 0) fresh_world = Inl (Exited 1, w')"
    and imp: "(DEBUG release_build \<and> latch fresh_world = 0 \<longrightarrow> sink_usable fresh_world) \<longrightarrow>
               stderr_out w' = stderr_out fresh_world
                 @ snprintf_text (FNAME_LENGTH release_build)
                     (''Error: '' @ fatal_intro release_build (FILE_macro release_build) 114 @ ''\<newline>'')
                 @ snprintf_text (FNAME_LENGTH release_build) ''Error: file read fail\<newline>''"
    by (elim exE conjE)
  from imp top have out: "stderr_out w' = stderr_out fresh_world
                 @ snprintf_text (FNAME_LENGTH release_build)
                     (''Error: '' @ fatal_intro release_build (FILE_macro release_build) 114 @ ''\<newline>'')
                 @ snprintf_text (FNAME_LENGTH release_build) ''Error: file read fail\<newline>''"
    by (rule mp)
  have a: "stderr_out w'
      = ''Error: Fatal Error encountered in src/coreUtils/errorReport.c at line 114:\<newline>''
        @ ''Error: file read fail\<newline>''"
    unfolding out
    by (simp add: release_build_fields fatal_intro_examples snprintf_text_def
          fresh_world_def start_world_def)
  have b: "dcffread 7 release_build 4 10 (replicate 40 0) fresh_world
     = Inr (replicate 40 0, [], fresh_world)"
  proof -
    have "dcffread (Suc 6) release_build 4 10 (replicate 40 0) fresh_world
        = Inr (replicate 40 0, [], fresh_world)"
      by (simp only: dcffread.simps) (simp add: fread_def)
    then show ?thesis by simp
  qed
  show ?thesis
    using pre a b by (simp add: w')
qed

text \<open>
  C9. When the message passed to \<^verbatim>\<open>ephem_fatal\<close> is \<^verbatim>\<open>temp_stringA\<close> itself, the
  buffer that \<^verbatim>\<open>ephem_error\<close> overwrites with the location line, the second line on
  stderr still carries the text that \<^verbatim>\<open>temp_stringA\<close> held at the call: the message was
  copied to \<^verbatim>\<open>temp_stringE\<close> first and the second line is formatted from that copy.
  (In debug mode at top level the log must be open or openable, or else the process ends
  inside the first \<^verbatim>\<open>ephem_error\<close>.)
\<close>

theorem fatal_message_in_temp_stringA_survives:
  assumes "buffers_ok cfg" and "fits cfg w (Scratch temp_stringA)"
    and "DEBUG cfg \<and> latch w = 0 \<longrightarrow> sink_usable w" and "3 \<le> n"
  shows "\<exists>w'. ephem_fatal n cfg fl ln (Scratch temp_stringA) w = Inl (Exited 1, w') \<and>
     stderr_out w' = stderr_out w
        @ snprintf_text (FNAME_LENGTH cfg)
            (''Error: ''
             @ fatal_intro cfg (deref (set_slot temp_stringE (slots w temp_stringA) w) fl) ln
             @ ''\<newline>'')
        @ snprintf_text (FNAME_LENGTH cfg) (''Error: '' @ slots w temp_stringA @ ''\<newline>'')"
proof -
  from assms(4) obtain k where k: "n = Suc (Suc (Suc k))"
    using fuel_3 by blast
  show ?thesis
  proof (cases "DEBUG cfg \<and> latch w = 0")
    case True
    with assms(3) have s: "sink_usable w" by simp
    from True have d: "DEBUG cfg" and l: "latch w = 0" by simp_all
    from ephem_fatal_logged [OF assms(1,2) d l s, of k fl ln]
    show ?thesis
      unfolding k by auto
  next
    case False
    then have "\<not> DEBUG cfg \<or> latch w \<noteq> 0" by simp
    from ephem_fatal_quiet [OF assms(1,2) this, of k fl ln]
    show ?thesis
      unfolding k by auto
  qed
qed

theorem fatal_message_in_temp_stringA_survives_witness:
  "buffers_ok release_build \<and>
   fits release_build (set_slot temp_stringA ''disk full'' fresh_world) (Scratch temp_stringA) \<and>
   stopped (ephem_fatal 3 release_build (Other ''main.c'') 42 (Scratch temp_stringA)
              (set_slot temp_stringA ''disk full'' fresh_world)) = Some (Exited 1) \<and>
   stderr_out (final_world (ephem_fatal 3 release_build (Other ''main.c'') 42 (Scratch temp_stringA)
              (set_slot temp_stringA ''disk full'' fresh_world)))
     = ''Error: Fatal Error encountered in main.c at line 42:\<newline>Error: disk full\<newline>''"
proof -
  define w where "w = set_slot temp_stringA ''disk full'' fresh_world"
  have pre: "buffers_ok release_build" "fits release_build w (Scratch temp_stringA)"
    "DEBUG release_build \<and> latch w = 0 \<longrightarrow> sink_usable w" "(3::nat) \<le> 3"
    by (simp_all add: example_builds_ok fits_def release_build_fields w_def)
  from fatal_message_in_temp_stringA_survives [OF pre, of "Other ''main.c''" 42]
  obtain w' where w': "ephem_fatal 3 release_build (Other ''main.c'') 42 (Scratch temp_stringA) w
        = Inl (Exited 1, w')"
    and out: "stderr_out w' = stderr_out w
        @ snprintf_text (FNAME_LENGTH release_build)
            (''Error: ''
             @ fatal_intro release_build (deref (set_slot temp_stringE (slots w temp_stringA) w) (Other ''main.c'')) 42
             @ ''\<newline>'')
        @ snprintf_text (FNAME_LENGTH release_build) (''Error: '' @ slots w temp_stringA @ ''\<newline>'')"
    by auto
  have a: "stderr_out w'
      = ''Error: Fatal Error encountered in main.c at line 42:\<newline>Error: disk full\<newline>''"
    unfolding out
    by (simp add: w_def fatal_intro_examples release_build_fields snprintf_text_def
          fresh_world_def start_world_def)
  show ?thesis
    using pre(1,2) unfolding w_def [symmetric]
    by (simp add: w' a stopped_def final_world_def)
qed

text \<open>
  C10. The scratch buffers hold \<open>LSTR_LENGTH\<close> bytes, but every line the three emitters
  format is written with \<^verbatim>\<open>snprintf\<close> and the bound \<open>FNAME_LENGTH\<close>. So for any
  message that fits its scratch buffer, what a top-level call appends to the stream is
  the first \<open>FNAME_LENGTH - 1\<close> characters of the formatted line (prefix, message,
  newline), and in debug mode the text of the log line is the first \<open>FNAME_LENGTH - 1\<close>
  characters of the log prefix followed by the message. A message longer than that is
  emitted cut short.
\<close>

theorem emitted_lines_are_cut_to_FNAME_LENGTH:
  assumes "buffers_ok cfg" and "fits cfg w msg"
    and "latch w = 0" and "DEBUG cfg \<longrightarrow> sink_usable w" and "2 \<le> n"
  shows
    "(\<exists>w'. ephem_error n cfg msg w = Inr w' \<and>
        stderr_out w' = stderr_out w
          @ take (FNAME_LENGTH cfg - 1) (''Error: '' @ deref w msg @ ''\<newline>'') \<and>
        (DEBUG cfg \<longrightarrow>
           log_text w' = (if logfile w = None then [] else log_text w)
             @ log_line (stamp w 0) (take (FNAME_LENGTH cfg - 1) (''Error: '' @ deref w msg)))) \<and>
     (\<exists>w'. ephem_warning n cfg msg w = Inr w' \<and>
        stderr_out w' = stderr_out w
          @ take (FNAME_LENGTH cfg - 1) (''Warning: '' @ deref w msg @ ''\<newline>'') \<and>
        (DEBUG cfg \<longrightarrow>
           log_text w' = (if logfile w = None then [] else log_text w)
             @ log_line (stamp w 0) (take (FNAME_LENGTH cfg - 1) (''Warning: '' @ deref w msg)))) \<and>
     (\<exists>w'. ephem_report n cfg msg w = Inr w' \<and>
        stdout_out w' = stdout_out w
          @ take (FNAME_LENGTH cfg - 1) (deref w msg @ ''\<newline>'') \<and>
        (DEBUG cfg \<longrightarrow>
           log_text w' = (if logfile w = None then [] else log_text w)
             @ log_line (stamp w 0) (take (FNAME_LENGTH cfg - 1) (''Reporting: '' @ deref w msg))))"
proof -
  from assms(5) obtain k where k: "n = Suc (Suc k)"
    using fuel_2 by blast
  have sink: "DEBUG cfg \<and> latch w = 0 \<longrightarrow> sink_usable w"
    using assms(4) by simp
  from ephem_error_returns [OF assms(1,2) sink, of k]
  have e: "\<exists>w'. ephem_error n cfg msg w = Inr w' \<and>
        stderr_out w' = stderr_out w
          @ take (FNAME_LENGTH cfg - 1) (''Error: '' @ deref w msg @ ''\<newline>'') \<and>
        (DEBUG cfg \<longrightarrow>
           log_text w' = (if logfile w = None then [] else log_text w)
             @ log_line (stamp w 0) (take (FNAME_LENGTH cfg - 1) (''Error: '' @ deref w msg)))"
    unfolding k snprintf_text_def using assms(3) by auto
  from ephem_warning_returns [OF assms(1,2) sink, of k]
  have wn: "\<exists>w'. ephem_warning n cfg msg w = Inr w' \<and>
        stderr_out w' = stderr_out w
          @ take (FNAME_LENGTH cfg - 1) (''Warning: '' @ deref w msg @ ''\<newline>'') \<and>
        (DEBUG cfg \<longrightarrow>
           log_text w' = (if logfile w = None then [] else log_text w)
             @ log_line (stamp w 0) (take (FNAME_LENGTH cfg - 1) (''Warning: '' @ deref w msg)))"
    unfolding k snprintf_text_def using assms(3) by auto
  from ephem_report_returns [OF assms(1,2) sink, of k]
  have r: "\<exists>w'. ephem_report n cfg msg w = Inr w' \<and>
        stdout_out w' = stdout_out w
          @ take (FNAME_LENGTH cfg - 1) (deref w msg @ ''\<newline>'') \<and>
        (DEBUG cfg \<longrightarrow>
           log_text w' = (if logfile w = None then [] else log_text w)
             @ log_line (stamp w 0) (take (FNAME_LENGTH cfg - 1) (''Reporting: '' @ deref w msg)))"
    unfolding k snprintf_text_def using assms(3) by auto
  from e wn r show ?thesis by (intro conjI)
qed

theorem emitted_lines_are_cut_to_FNAME_LENGTH_witness:
  "buffers_ok debug_build \<and>
   fits debug_build fresh_world (Other (replicate 5000 CHR ''x'')) \<and>
   latch fresh_world = 0 \<and> sink_usable fresh_world \<and>
   FNAME_LENGTH debug_build = 4096 \<and>
   stopped (ephem_error 2 debug_build (Other (replicate 5000 CHR ''x'')) fresh_world) = None \<and>
   stderr_out (final_world (ephem_error 2 debug_build (Other (replicate 5000 CHR ''x'')) fresh_world))
     = ''Error: '' @ replicate 4088 CHR ''x'' \<and>
   log_text (final_world (ephem_error 2 debug_build (Other (replicate 5000 CHR ''x'')) fresh_world))
     = ''[t0] Error: '' @ replicate 4088 CHR ''x'' @ ''\<newline>'' \<and>
   stopped (ephem_report 2 debug_build (Other (replicate 5000 CHR ''x'')) fresh_world) = None \<and>
   stdout_out (final_world (ephem_report 2 debug_build (Other (replicate 5000 CHR ''x'')) fresh_world))
     = replicate 4095 CHR ''x''"
proof -
  have st: "latch fresh_world = 0" "logfile fresh_world = None" "stderr_out fresh_world = []"
    "stdout_out fresh_world = []" "stamp fresh_world 0 = ''t0''" "sink_usable fresh_world"
    by (simp_all add: fresh_world_def start_world_def stamp_def clock_examples sink_usable_def)
  have pre: "buffers_ok debug_build" "fits debug_build fresh_world (Other (replicate 5000 CHR ''x''))"
    "latch fresh_world = 0" "DEBUG debug_build \<longrightarrow> sink_usable fresh_world" "(2::nat) \<le> 2"
    by (simp_all add: example_builds_ok debug_build_fields st fits_def)
  from emitted_lines_are_cut_to_FNAME_LENGTH [OF pre]
  obtain w1 w3 where
    w1: "ephem_error 2 debug_build (Other (replicate 5000 CHR ''x'')) fresh_world = Inr w1"
      "stderr_out w1 = stderr_out fresh_world
          @ take (FNAME_LENGTH debug_build - 1)
              (''Error: '' @ deref fresh_world (Other (replicate 5000 CHR ''x'')) @ ''\<newline>'')"
      "log_text w1 = (if logfile fresh_world = None then [] else log_text fresh_world)
             @ log_line (stamp fresh_world 0) (take (FNAME_LENGTH debug_build - 1)
                 (''Error: '' @ deref fresh_world (Other (replicate 5000 CHR ''x''))))"
    and w3: "ephem_report 2 debug_build (Other (replicate 5000 CHR ''x'')) fresh_world = Inr w3"
      "stdout_out w3 = stdout_out fresh_world
          @ take (FNAME_LENGTH debug_build - 1)
              (deref fresh_world (Other (replicate 5000 CHR ''x'')) @ ''\<newline>'')"
    by (auto simp add: debug_build_fields)
  show ?thesis
    using pre(1,2) st(1,6) w1 w3
    by (simp add: stopped_def final_world_def st log_line_def debug_build_fields)
qed

end
